theory Spec2Isabelle
  imports Main
begin

section \<open>Workflow-as-code synchronisation (engine/api/workflow)\<close>

text \<open>
  A shallow embedding of \<^verbatim>\<open>repository.go\<close> and \<^verbatim>\<open>workflow_parser.go\<close>.
  Go strings and byte slices are \<open>string\<close> (lists of bytes). A Go \<^verbatim>\<open>error\<close> is a value of
  the datatype \<open>err\<close>, and a function returning \<^verbatim>\<open>(T, error)\<close> returns \<open>err + T\<close>.
  Collaborators whose code is outside these two files (the YAML library, the tar writer,
  the persistence layer, the sdk helpers) are parameters of the functions that call them.
\<close>

subsection \<open>Errors\<close>

datatype sdk_kind =
    ErrWrongRequest
  | ErrWorkflowInvalid
  | ErrRepoOperationTimeout
  | ErrWorkflowNameImport
  | ErrInvalidApplicationPattern
  | ErrApplicationNotFound

datatype ctx_err = Canceled | DeadlineExceeded

text \<open>
  \<open>Errorf\<close> is \<^verbatim>\<open>fmt.Errorf\<close> with its formatted text, \<open>Sdk\<close> one of the sdk's error
  values, \<open>CtxErr\<close> the value of \<^verbatim>\<open>c.Err()\<close>, \<open>Foreign\<close> an error handed back by a
  collaborator (by its text), \<open>MultiError\<close> the sdk's aggregate (a slice of errors),
  \<open>NewError\<close>, \<open>WrapError\<close> and \<open>WithStack\<close> the sdk's wrappers.
\<close>

datatype err =
    Errorf string
  | Sdk sdk_kind
  | CtxErr ctx_err
  | Foreign string
  | MultiError "err list"
  | NewError sdk_kind err
  | WrapError err string
  | WithStack err

subsection \<open>strings.Contains\<close>

fun HasPrefix :: "string \<Rightarrow> string \<Rightarrow> bool" where
  "HasPrefix s [] = True"
| "HasPrefix [] (p # ps) = False"
| "HasPrefix (c # s) (p # ps) = (c = p \<and> HasPrefix s ps)"

fun Contains :: "string \<Rightarrow> string \<Rightarrow> bool" where
  "Contains [] sub = (sub = [])"
| "Contains (c # s) sub = (if HasPrefix (c # s) sub then True else Contains s sub)"

subsection \<open>extractFromCDSFiles (repository.go, 143-226)\<close>

text \<open>
  What the tar reader hands to the loop, in order: an entry (\<^verbatim>\<open>hdr.Name\<close> and the bytes
  \<^verbatim>\<open>io.Copy\<close> reads), a header that \<^verbatim>\<open>tr.Next\<close> cannot read, or an entry whose body
  \<^verbatim>\<open>io.Copy\<close> cannot read. The end of the list is \<^verbatim>\<open>io.EOF\<close>.
\<close>

datatype tar_item = Entry string string | BadHeader | BadBody string

text \<open>
  \<^verbatim>\<open>yaml.Unmarshal\<close>, one function per target type. An application, a pipeline and an
  environment are decoded into a fresh variable: the result is the error text or the value.
  The workflow is decoded into \<^verbatim>\<open>res.wrkflw\<close> itself, so the function takes the
  current value and returns the value left behind together with the error, if any.
\<close>

record ('w, 'a, 'p, 'e) yaml =
  um_app :: "string \<Rightarrow> string + 'a"
  um_pip :: "string \<Rightarrow> string + 'p"
  um_env :: "string \<Rightarrow> string + 'e"
  um_wrkflw :: "string \<Rightarrow> 'w \<Rightarrow> 'w \<times> string option"

record ('w, 'a, 'p, 'e) exportedEntities =
  wrkflw :: 'w
  apps :: "string \<rightharpoonup> 'a"
  pips :: "string \<rightharpoonup> 'p"
  envs :: "string \<rightharpoonup> 'e"

text \<open>
  The body of the \<^verbatim>\<open>for\<close> loop for one readable entry (lines 176-215), on the pair of
  \<^verbatim>\<open>res\<close> and \<^verbatim>\<open>mError\<close>. \<^verbatim>\<open>workflowFileName\<close> is declared inside the loop body
  (line 176) and nothing assigns it, so it is the empty string at the test of line 205 in
  every iteration; the model keeps the variable and the test. The \<^verbatim>\<open>break\<close> of line 208
  leaves the \<^verbatim>\<open>switch\<close>, not the loop, and a \<^verbatim>\<open>continue\<close> skips nothing but the store
  into the bundle: in every branch the loop goes on to the next entry.
\<close>

definition extract_entry ::
  "('w, 'a, 'p, 'e) yaml \<Rightarrow> string \<Rightarrow> string \<Rightarrow>
   ('w, 'a, 'p, 'e) exportedEntities \<times> err list \<Rightarrow>
   ('w, 'a, 'p, 'e) exportedEntities \<times> err list" where
  "extract_entry Y name b st =
    (let res = fst st; mError = snd st; workflowFileName = '''' in
     if Contains name ''.app.'' then
       (case um_app Y b of
          Inl e \<Rightarrow> (res, mError @ [Errorf (''Unable to unmarshal application '' @ name @ '': '' @ e)])
        | Inr app \<Rightarrow> (res\<lparr>apps := (apps res)(name \<mapsto> app)\<rparr>, mError))
     else if Contains name ''.pip.'' then
       (case um_pip Y b of
          Inl e \<Rightarrow> (res, mError @ [Errorf (''Unable to unmarshal pipeline '' @ name @ '': '' @ e)])
        | Inr pip \<Rightarrow> (res\<lparr>pips := (pips res)(name \<mapsto> pip)\<rparr>, mError))
     else if Contains name ''.env.'' then
       (case um_env Y b of
          Inl e \<Rightarrow> (res, mError @ [Errorf (''Unable to unmarshal environment '' @ name @ '': '' @ e)])
        | Inr env \<Rightarrow> (res\<lparr>envs := (envs res)(name \<mapsto> env)\<rparr>, mError))
     else if workflowFileName \<noteq> '''' then
       (res, mError @ [Errorf (''two workflows files found: '' @ workflowFileName @ '' and '' @ name)])
     else
       (case um_wrkflw Y b (wrkflw res) of
          (w', Some e) \<Rightarrow>
            (res\<lparr>wrkflw := w'\<rparr>, mError @ [Errorf (''Unable to unmarshal workflow '' @ name @ '': '' @ e)])
        | (w', None) \<Rightarrow> (res\<lparr>wrkflw := w'\<rparr>, mError)))"

definition unable_to_read_tar :: err where
  "unable_to_read_tar = WithStack (NewError ErrWrongRequest (Errorf ''Unable to read tar file''))"

fun extract_loop ::
  "('w, 'a, 'p, 'e) yaml \<Rightarrow> tar_item list \<Rightarrow>
   ('w, 'a, 'p, 'e) exportedEntities \<times> err list \<Rightarrow>
   err + ('w, 'a, 'p, 'e) exportedEntities \<times> err list" where
  "extract_loop Y [] st = Inr st"
| "extract_loop Y (BadHeader # tr) st = Inl unable_to_read_tar"
| "extract_loop Y (BadBody name # tr) st = Inl unable_to_read_tar"
| "extract_loop Y (Entry name b # tr) st = extract_loop Y tr (extract_entry Y name b st)"

text \<open>\<open>w0\<close> is the zero value of \<^verbatim>\<open>exportentities.Workflow\<close>.\<close>

definition extractFromCDSFiles ::
  "('w, 'a, 'p, 'e) yaml \<Rightarrow> 'w \<Rightarrow> tar_item list \<Rightarrow> err + ('w, 'a, 'p, 'e) exportedEntities" where
  "extractFromCDSFiles Y w0 tr =
    (case extract_loop Y tr (\<lparr>wrkflw = w0, apps = Map.empty, pips = Map.empty, envs = Map.empty\<rparr>, []) of
       Inl e \<Rightarrow> Inl e
     | Inr (res, mError) \<Rightarrow>
         if mError \<noteq> [] then Inl (NewError ErrWorkflowInvalid (MultiError mError)) else Inr res)"

subsection \<open>Extraction as the specification words it\<close>

text \<open>
  The specification's reading of the same loop, for comparison with the code: every entry
  is classified by its name, deserialized on its own, and either stored in the bundle or
  reported; nothing stops the pass.
\<close>

datatype entity_kind = KApplication | KPipeline | KEnvironment | KWorkflow

definition classify :: "string \<Rightarrow> entity_kind" where
  "classify name =
    (if Contains name ''.app.'' then KApplication
     else if Contains name ''.pip.'' then KPipeline
     else if Contains name ''.env.'' then KEnvironment
     else KWorkflow)"

text \<open>One entry: the bundle after it, and the decoder's error when it failed.\<close>

definition deserialize ::
  "('w, 'a, 'p, 'e) yaml \<Rightarrow> string \<Rightarrow> string \<Rightarrow> ('w, 'a, 'p, 'e) exportedEntities \<Rightarrow>
   ('w, 'a, 'p, 'e) exportedEntities \<times> string option" where
  "deserialize Y name b res =
    (case classify name of
       KApplication \<Rightarrow>
         (case um_app Y b of
            Inl e \<Rightarrow> (res, Some e)
          | Inr v \<Rightarrow> (res\<lparr>apps := (apps res)(name \<mapsto> v)\<rparr>, None))
     | KPipeline \<Rightarrow>
         (case um_pip Y b of
            Inl e \<Rightarrow> (res, Some e)
          | Inr v \<Rightarrow> (res\<lparr>pips := (pips res)(name \<mapsto> v)\<rparr>, None))
     | KEnvironment \<Rightarrow>
         (case um_env Y b of
            Inl e \<Rightarrow> (res, Some e)
          | Inr v \<Rightarrow> (res\<lparr>envs := (envs res)(name \<mapsto> v)\<rparr>, None))
     | KWorkflow \<Rightarrow>
         (case um_wrkflw Y b (wrkflw res) of (w', e) \<Rightarrow> (res\<lparr>wrkflw := w'\<rparr>, e)))"

fun kind_word :: "entity_kind \<Rightarrow> string" where
  "kind_word KApplication = ''application''"
| "kind_word KPipeline = ''pipeline''"
| "kind_word KEnvironment = ''environment''"
| "kind_word KWorkflow = ''workflow''"

definition unmarshal_error :: "string \<Rightarrow> string \<Rightarrow> err" where
  "unmarshal_error name e =
    Errorf (''Unable to unmarshal '' @ kind_word (classify name) @ '' '' @ name @ '': '' @ e)"

text \<open>The failing entries of an archive, in order: file name and decoder error.\<close>

fun failures ::
  "('w, 'a, 'p, 'e) yaml \<Rightarrow> ('w, 'a, 'p, 'e) exportedEntities \<Rightarrow>
   (string \<times> string) list \<Rightarrow> (string \<times> string) list" where
  "failures Y res [] = []"
| "failures Y res ((name, b) # es) =
    (case deserialize Y name b res of
       (res', Some e) \<Rightarrow> (name, e) # failures Y res' es
     | (res', None) \<Rightarrow> failures Y res' es)"

text \<open>The bundle after all entries.\<close>

fun populate ::
  "('w, 'a, 'p, 'e) yaml \<Rightarrow> ('w, 'a, 'p, 'e) exportedEntities \<Rightarrow>
   (string \<times> string) list \<Rightarrow> ('w, 'a, 'p, 'e) exportedEntities" where
  "populate Y res [] = res"
| "populate Y res ((name, b) # es) = populate Y (fst (deserialize Y name b res)) es"

definition empty_bundle :: "'w \<Rightarrow> ('w, 'a, 'p, 'e) exportedEntities" where
  "empty_bundle w0 = \<lparr>wrkflw = w0, apps = Map.empty, pips = Map.empty, envs = Map.empty\<rparr>"

definition readable :: "(string \<times> string) list \<Rightarrow> tar_item list" where
  "readable es = map (\<lambda>(name, b). Entry name b) es"

text \<open>
  A YAML decoder to run the extraction on concrete archives: it refuses the empty document
  and keeps any other content as the decoded value.
\<close>

definition sample_yaml :: "(string, string, string, string) yaml" where
  "sample_yaml =
    \<lparr>um_app = (\<lambda>b. if b = [] then Inl ''EOF'' else Inr b),
     um_pip = (\<lambda>b. if b = [] then Inl ''EOF'' else Inr b),
     um_env = (\<lambda>b. if b = [] then Inl ''EOF'' else Inr b),
     um_wrkflw = (\<lambda>b w. if b = [] then (w, Some ''EOF'') else (b, None))\<rparr>"

subsection \<open>sdk.Operation\<close>

text \<open>
  The sdk's types are declared outside the two files; the records below have the fields the
  two files read and write, under the sdk's names (prefixed where two records share a
  field name).
\<close>

datatype OperationStatus =
    OperationStatusPending
  | OperationStatusProcessing
  | OperationStatusDone
  | OperationStatusError

record RepositoryStrategy =
  ConnectionType :: string
  SSHKey :: string
  SSHKeyContent :: string
  User :: string
  Password :: string

record OperationCheckout =
  Tag :: string
  Branch :: string
  Commit :: string

record OperationLoadFiles =
  Pattern :: string
  Results :: "(string \<times> string) list"

record OperationRepositoryInfo =
  FetchURL :: string
  DefaultBranch :: string

record Operation =
  ope_UUID :: string
  ope_VCSServer :: string
  ope_RepoFullName :: string
  ope_URL :: string
  ope_RepositoryStrategy :: RepositoryStrategy
  ope_Setup :: OperationCheckout
  ope_LoadFiles :: OperationLoadFiles
  ope_Status :: OperationStatus
  ope_Error :: string
  ope_RepositoryInfo :: "OperationRepositoryInfo option"

subsection \<open>pollRepositoryOperation (repository.go, 228-256)\<close>

text \<open>
  Each iteration of the loop blocks in \<^verbatim>\<open>select\<close> until one of three channels delivers;
  which one does is decided outside the function. The run of a poller is therefore driven
  by the list of deliveries, in order:
  \<^item> \<open>CtxDone e\<close>: \<^verbatim>\<open>c.Done()\<close> delivers, and \<^verbatim>\<open>c.Err()\<close> is \<open>e\<close> (\<open>None\<close> is nil);
  \<^item> \<open>TickTimeout\<close>: the ten-minute ticker delivers;
  \<^item> \<open>TickPoll op e\<close>: the two-second ticker delivers, and the call of
    \<^verbatim>\<open>operation.GetRepositoryOperation\<close> that follows leaves \<open>op\<close> in \<^verbatim>\<open>*ope\<close> and returns \<open>e\<close>.
  When the list is exhausted the poller is still blocked in \<^verbatim>\<open>select\<close>: it has not
  returned, which is the value \<open>None\<close>.
\<close>

datatype poll_event =
    CtxDone "ctx_err option"
  | TickTimeout
  | TickPoll Operation "err option"

text \<open>The two tickers of lines 229-230: running from \<^verbatim>\<open>time.NewTicker\<close> until \<^verbatim>\<open>Stop\<close>.\<close>

record tickers =
  tickTimeout_running :: bool
  tickPoll_running :: bool

text \<open>
  What a run leaves: the returned error (\<open>None\<close> is nil), the caller's \<^verbatim>\<open>*ope\<close>, the
  number of calls of \<^verbatim>\<open>GetRepositoryOperation\<close> made, and the state of the tickers.
\<close>

record poll_result =
  poll_ret :: "err option"
  poll_ope :: Operation
  poll_fetches :: nat
  poll_tickers :: tickers

text \<open>
  The \<^verbatim>\<open>for\<close>/\<^verbatim>\<open>select\<close> loop (lines 232-255). \<open>fmt\<close> is the formatting of an Operation
  by the verb \<^verbatim>\<open>%+v\<close>. The result is the returned error, \<^verbatim>\<open>*ope\<close> and the number of
  fetches.
\<close>

fun poll_loop ::
  "(Operation \<Rightarrow> string) \<Rightarrow> poll_event list \<Rightarrow> Operation \<Rightarrow> nat \<Rightarrow>
   (err option \<times> Operation \<times> nat) option" where
  "poll_loop fmt [] ope n = None"
| "poll_loop fmt (CtxDone None # evs) ope n = poll_loop fmt evs ope n"
| "poll_loop fmt (CtxDone (Some e) # evs) ope n =
     Some (Some (WrapError (CtxErr e) ''pollRepositoryOperation> Exiting''), ope, n)"
| "poll_loop fmt (TickTimeout # evs) ope n =
     Some (Some (WrapError (Sdk ErrRepoOperationTimeout)
                   ''pollRepositoryOperation> Timeout analyzing repository''), ope, n)"
| "poll_loop fmt (TickPoll ope' (Some e) # evs) ope n =
     Some (Some (WrapError e ''Cannot get repository operation status''), ope', Suc n)"
| "poll_loop fmt (TickPoll ope' None # evs) ope n =
     (case ope_Status ope' of
        OperationStatusError \<Rightarrow>
          (let opeTrusted = ope'\<lparr>ope_RepositoryStrategy :=
                 (ope_RepositoryStrategy ope')\<lparr>SSHKeyContent := ''***'', Password := ''***''\<rparr>\<rparr>
           in Some (Some (WrapError (Errorf (ope_Error ope'))
                            (''getImportAsCodeHandler> Operation in error. '' @ fmt opeTrusted)),
                    ope', Suc n))
      | OperationStatusDone \<Rightarrow> Some (None, ope', Suc n)
      | _ \<Rightarrow> poll_loop fmt evs ope' (Suc n))"

text \<open>
  The function: both tickers are created, \<^verbatim>\<open>tickTimeout.Stop()\<close> is deferred (line 231),
  the loop runs, and the deferred call runs when the loop returns.
\<close>

definition pollRepositoryOperation ::
  "(Operation \<Rightarrow> string) \<Rightarrow> poll_event list \<Rightarrow> Operation \<Rightarrow> poll_result option" where
  "pollRepositoryOperation fmt evs ope =
    (let tk = \<lparr>tickTimeout_running = True, tickPoll_running = True\<rparr> in
     case poll_loop fmt evs ope 0 of
       None \<Rightarrow> None
     | Some (r, ope', n) \<Rightarrow>
         Some \<lparr>poll_ret = r, poll_ope = ope', poll_fetches = n,
               poll_tickers = tk\<lparr>tickTimeout_running := False\<rparr>\<rparr>)"

subsection \<open>Runs of the poller\<close>

text \<open>A delivery after which the loop goes round again.\<close>

fun goes_on :: "poll_event \<Rightarrow> bool" where
  "goes_on (CtxDone None) = True"
| "goes_on (CtxDone (Some e)) = False"
| "goes_on TickTimeout = False"
| "goes_on (TickPoll op (Some e)) = False"
| "goes_on (TickPoll op None) =
     (ope_Status op = OperationStatusPending \<or> ope_Status op = OperationStatusProcessing)"

fun is_poll :: "poll_event \<Rightarrow> bool" where
  "is_poll (TickPoll op e) = True"
| "is_poll ev = False"

text \<open>\<^verbatim>\<open>*ope\<close> after a list of deliveries that all let the loop go on.\<close>

fun ope_after :: "poll_event list \<Rightarrow> Operation \<Rightarrow> Operation" where
  "ope_after [] ope = ope"
| "ope_after (TickPoll op e # evs) ope = ope_after evs op"
| "ope_after (ev # evs) ope = ope_after evs ope"

text \<open>An Operation with other secrets in its repository credentials.\<close>

definition with_secrets :: "string \<Rightarrow> string \<Rightarrow> Operation \<Rightarrow> Operation" where
  "with_secrets k p op =
    op\<lparr>ope_RepositoryStrategy := (ope_RepositoryStrategy op)\<lparr>SSHKeyContent := k, Password := p\<rparr>\<rparr>"

text \<open>An Operation and a formatting (every field of the credentials is printed) to run the poller on.\<close>

definition sample_operation :: Operation where
  "sample_operation =
    \<lparr>ope_UUID = ''op-1'', ope_VCSServer = ''github'', ope_RepoFullName = ''org/repo'',
     ope_URL = ''https://github.com/org/repo.git'',
     ope_RepositoryStrategy =
       \<lparr>ConnectionType = ''ssh'', SSHKey = ''proj-key'', SSHKeyContent = ''PRIVATE KEY'',
        User = ''git'', Password = ''hunter2''\<rparr>,
     ope_Setup = \<lparr>Tag = '''', Branch = ''master'', Commit = ''''\<rparr>,
     ope_LoadFiles = \<lparr>Pattern = ''.cds/**/*.yml'', Results = []\<rparr>,
     ope_Status = OperationStatusPending, ope_Error = '''',
     ope_RepositoryInfo = None\<rparr>"

definition sample_format :: "Operation \<Rightarrow> string" where
  "sample_format op =
    ''{UUID:'' @ ope_UUID op @ '' RepositoryStrategy:{ConnectionType:'' @
    ConnectionType (ope_RepositoryStrategy op) @ '' SSHKey:'' @ SSHKey (ope_RepositoryStrategy op) @
    '' SSHKeyContent:'' @ SSHKeyContent (ope_RepositoryStrategy op) @
    '' User:'' @ User (ope_RepositoryStrategy op) @
    '' Password:'' @ Password (ope_RepositoryStrategy op) @ ''} Error:'' @ ope_Error op @ ''}''"


text \<open>The returned error and the number of fetches of a run.\<close>

definition poll_outcome :: "poll_result option \<Rightarrow> (err option \<times> nat) option" where
  "poll_outcome r = map_option (\<lambda>x. (poll_ret x, poll_fetches x)) r"


subsection \<open>ReadCDSFiles (repository.go, 112-141)\<close>

text \<open>
  \<^verbatim>\<open>filepath.Base\<close> of the Go library, with \<open>/\<close> as the separator: the empty path gives
  \<open>.\<close>; trailing separators are dropped; what follows the last separator is kept; a path
  of separators alone gives \<open>/\<close>.
\<close>

definition Base :: "string \<Rightarrow> string" where
  "Base path =
    (if path = [] then ''.''
     else
       let stripped = rev (dropWhile (\<lambda>c. c = CHR ''/'') (rev path));
           last_elem = rev (takeWhile (\<lambda>c. c \<noteq> CHR ''/'') (rev stripped))
       in if last_elem = [] then ''/'' else last_elem)"

record Header =
  hdr_Name :: string
  hdr_Mode :: nat
  hdr_Size :: int

text \<open>
  The \<^verbatim>\<open>tar.Writer\<close> over the buffer, as the function uses it: \<open>'s\<close> is what has been
  written so far. \<open>tw_Write\<close> returns the number of bytes written, the error and the new
  state. The library is outside the repository: the writer is a parameter, and every
  statement below that names \<open>tw\<close> holds of every writer.
\<close>

record 's tar_writer =
  tw_NewWriter :: 's
  tw_WriteHeader :: "'s \<Rightarrow> Header \<Rightarrow> err + 's"
  tw_Write :: "'s \<Rightarrow> string \<Rightarrow> nat \<times> err option \<times> 's"
  tw_Close :: "'s \<Rightarrow> err + 's"

text \<open>
  The body of the \<^verbatim>\<open>for ... range files\<close> loop (lines 120-133) for one pair of the map.
  The mode \<^verbatim>\<open>0600\<close> is octal, that is 384.
\<close>

definition pack_file :: "'s tar_writer \<Rightarrow> 's \<Rightarrow> string \<times> string \<Rightarrow> err + 's" where
  "pack_file tw s f =
    (let fname = fst f; fcontent = snd f;
         hdr = \<lparr>hdr_Name = Base fname, hdr_Mode = 384, hdr_Size = int (length fcontent)\<rparr>
     in case tw_WriteHeader tw s hdr of
          Inl e \<Rightarrow> Inl (WrapError e ''Cannot write header'')
        | Inr s1 \<Rightarrow>
            (case tw_Write tw s1 fcontent of
               (n, Some e, s2) \<Rightarrow> Inl (WrapError e ''Cannot write content'')
             | (n, None, s2) \<Rightarrow> if n = 0 then Inl (Errorf ''nothing to write'') else Inr s2))"

text \<open>
  The loop. A Go map is iterated in an order the runtime chooses: \<open>files\<close> is the list of
  the map's pairs in that order. The first failing pair ends the function.
\<close>

fun write_files :: "'s tar_writer \<Rightarrow> (string \<times> string) list \<Rightarrow> 's \<Rightarrow> err + 's" where
  "write_files tw [] s = Inr s"
| "write_files tw (f # files) s =
    (case pack_file tw s f of
       Inl e \<Rightarrow> Inl e
     | Inr s2 \<Rightarrow> write_files tw files s2)"

definition ReadCDSFiles :: "'s tar_writer \<Rightarrow> (string \<times> string) list \<Rightarrow> err + 's" where
  "ReadCDSFiles tw files =
    (case write_files tw files (tw_NewWriter tw) of
       Inl e \<Rightarrow> Inl e
     | Inr s \<Rightarrow> (case tw_Close tw s of Inl e \<Rightarrow> Inl e | Inr s' \<Rightarrow> Inr s'))"

subsection \<open>Packing as the specification words it\<close>

text \<open>The header of one file: base name, fixed mode, exact length.\<close>

definition file_header :: "string \<times> string \<Rightarrow> Header" where
  "file_header f =
    \<lparr>hdr_Name = Base (fst f), hdr_Mode = 384, hdr_Size = int (length (snd f))\<rparr>"

definition packed_entry :: "string \<times> string \<Rightarrow> Header \<times> string" where
  "packed_entry f = (file_header f, snd f)"

text \<open>
  Writers that record what they are given, to read the archive back: the state is the
  list of entries, each a header and the bytes written under it. Whether a call fails,
  and how many bytes a write takes, is left to three oracles that see the entries so far
  and the argument: \<open>hf\<close> for \<^verbatim>\<open>WriteHeader\<close>, \<open>wr\<close> for \<^verbatim>\<open>Write\<close> (bytes and error),
  \<open>cf\<close> for \<^verbatim>\<open>Close\<close>. A write of \<open>n\<close> bytes appends the first \<open>n\<close> bytes to the last
  entry. Nothing is assumed of the oracles: the library's own refusals (of a header, or of
  content under a header that takes none) are among them.
\<close>

definition append_last :: "(Header \<times> string) list \<Rightarrow> string \<Rightarrow> (Header \<times> string) list" where
  "append_last s b = (case rev s of [] \<Rightarrow> [] | (hdr, c) # r \<Rightarrow> rev r @ [(hdr, c @ b)])"

definition recording_writer ::
  "((Header \<times> string) list \<Rightarrow> Header \<Rightarrow> err option) \<Rightarrow>
   ((Header \<times> string) list \<Rightarrow> string \<Rightarrow> nat \<times> err option) \<Rightarrow>
   ((Header \<times> string) list \<Rightarrow> err option) \<Rightarrow> (Header \<times> string) list tar_writer" where
  "recording_writer hf wr cf =
    \<lparr>tw_NewWriter = [],
     tw_WriteHeader = (\<lambda>s hdr. case hf s hdr of Some e \<Rightarrow> Inl e | None \<Rightarrow> Inr (s @ [(hdr, [])])),
     tw_Write = (\<lambda>s b. case wr s b of (n, e) \<Rightarrow> (n, e, append_last s (take n b))),
     tw_Close = (\<lambda>s. case cf s of Some e \<Rightarrow> Inl e | None \<Rightarrow> Inr s)\<rparr>"

text \<open>
  The recording writer none of whose calls fails and whose writes take every byte: a
  sample writer to run the packing on concrete files, not a model of the library.
\<close>

definition buffer_writer :: "(Header \<times> string) list tar_writer" where
  "buffer_writer = recording_writer (\<lambda>s hdr. None) (\<lambda>s b. (length b, None)) (\<lambda>s. None)"


text \<open>
  An entry of a recording writer's archive against the file it was packed from: the header
  is the file's header, and the bytes are those taken by a write of the file's content
  that the oracle let succeed with \<open>n > 0\<close> bytes.
\<close>

definition recorded ::
  "((Header \<times> string) list \<Rightarrow> string \<Rightarrow> nat \<times> err option) \<Rightarrow> Header \<times> string \<Rightarrow>
   string \<times> string \<Rightarrow> bool" where
  "recorded wr e f =
    (fst e = file_header f \<and> (\<exists>n s1. 0 < n \<and> wr s1 (snd f) = (n, None) \<and> snd e = take n (snd f)))"

subsection \<open>The sdk's workflow types\<close>

text \<open>
  Declared outside the two files; the records have the fields the two files use. A Go map
  held in a struct is a reference: the configuration of a hook is an address into a store
  of maps (\<open>None\<close> is the nil map), so that two hooks sharing one map can be told from two
  hooks with equal maps. Identifiers (\<^verbatim>\<open>int64\<close>) are integers; nothing computes with them.
\<close>

record Application =
  app_Name :: string
  app_VCSServer :: string
  app_RepositoryFullname :: string
  app_RepositoryStrategy :: RepositoryStrategy

definition zero_Application :: Application where
  "zero_Application =
    \<lparr>app_Name = '''', app_VCSServer = '''', app_RepositoryFullname = '''',
     app_RepositoryStrategy =
       \<lparr>ConnectionType = '''', SSHKey = '''', SSHKeyContent = '''', User = '''', Password = ''''\<rparr>\<rparr>"

record WorkflowNodeHookConfigValue =
  Value :: string
  Configurable :: bool
  Type :: string

type_synonym WorkflowNodeHookConfig = "string \<rightharpoonup> WorkflowNodeHookConfigValue"

type_synonym store = "WorkflowNodeHookConfig list"

record NodeHook =
  UUID :: string
  HookModelName :: string
  HookModelID :: int
  Config :: "nat option"

record 'p NodeContext =
  ApplicationID :: int
  DefaultPayload :: 'p

record 'p Node =
  Hooks :: "NodeHook list"
  Context :: "'p NodeContext"

text \<open>\<open>WorkflowData_Node\<close> is \<^verbatim>\<open>WorkflowData.Node\<close>, the root node.\<close>

record 'p Workflow =
  wf_Name :: string
  ProjectID :: int
  ProjectKey :: string
  FromRepository :: string
  DerivationBranch :: string
  WorkflowData_Node :: "'p Node"
  Applications :: "int \<rightharpoonup> Application"

record GroupPermission =
  Group_Name :: string
  Permission :: int

record Project =
  proj_ID :: int
  proj_Key :: string
  ProjectGroups :: "GroupPermission list"

text \<open>\<^verbatim>\<open>exportentities.Workflow\<close>: the name, the permissions, and the rest of the file.\<close>

record 'b exp_Workflow =
  ew_Name :: string
  ew_Permissions :: "string \<rightharpoonup> int"
  ew_Body :: 'b

record WorkflowHookModel =
  model_Name :: string
  model_ID :: int
  model_DefaultConfig :: WorkflowNodeHookConfig

record ImportOptions =
  opts_Force :: bool
  opts_WorkflowName :: string
  opts_FromRepository :: string
  opts_IsDefaultBranch :: bool
  opts_FromBranch :: string
  opts_VCSServer :: string
  opts_RepositoryName :: string
  opts_RepositoryStrategy :: RepositoryStrategy
  opts_HookUUID :: string

text \<open>
  What the two files call and do not define. A function that receives \<^verbatim>\<open>*sdk.Workflow\<close>
  may write through the pointer, so it takes and returns the store and the workflow.
  \<^item> \<open>NamePatternRegex\<close>, \<open>NamePattern\<close>: the sdk's name pattern, as a test and as text;
  \<^item> \<open>GetWorkflow\<close>: \<^verbatim>\<open>ew.GetWorkflow()\<close>;
  \<^item> \<open>IsValid\<close>: the structural validation, with the \<^verbatim>\<open>DeepPipeline\<close> flag;
  \<^item> \<open>ErrorToMessage\<close>: the message an error carries, if any;
  \<^item> \<open>RenameNode\<close>, \<open>DefaultPayload_func\<close> (the function \<^verbatim>\<open>DefaultPayload\<close>), \<open>Import\<close>:
    functions of the package's other files;
  \<^item> \<open>Ref\<close>: \<^verbatim>\<open>NodeHook.Ref()\<close>, which reads the hook and its configuration;
  \<^item> \<open>RepositoryWebHookModel\<close>, \<open>HookConfigWorkflow\<close>: the sdk's constants.
\<close>

record ('p, 'b, 'm) collaborators =
  NamePatternRegex :: "string \<Rightarrow> bool"
  NamePattern :: string
  GetWorkflow :: "'b exp_Workflow \<Rightarrow> store \<Rightarrow> err + store \<times> 'p Workflow"
  IsValid :: "store \<times> 'p Workflow \<Rightarrow> Project \<Rightarrow> bool \<Rightarrow> err + store \<times> 'p Workflow"
  ErrorToMessage :: "err \<Rightarrow> 'm option"
  RenameNode :: "store \<times> 'p Workflow \<Rightarrow> err + store \<times> 'p Workflow"
  DefaultPayload_func :: "Project \<Rightarrow> store \<times> 'p Workflow \<Rightarrow> err + 'p"
  Import ::
    "Project \<Rightarrow> 'p Workflow option \<Rightarrow> store \<times> 'p Workflow \<Rightarrow> bool \<Rightarrow>
     (store \<times> 'p Workflow) \<times> 'm list \<times> err option"
  Ref :: "store \<Rightarrow> NodeHook \<Rightarrow> string"
  RepositoryWebHookModel :: WorkflowHookModel
  HookConfigWorkflow :: string

subsection \<open>Parse (workflow_parser.go, 29-57)\<close>

text \<open>
  The loop of lines 43-45: each project group writes its permission under its group's name,
  a later group of the same name over an earlier one.
\<close>

fun inherit_permissions :: "GroupPermission list \<Rightarrow> (string \<rightharpoonup> int) \<Rightarrow> (string \<rightharpoonup> int)" where
  "inherit_permissions [] perms = perms"
| "inherit_permissions (p # ps) perms = inherit_permissions ps (perms(Group_Name p \<mapsto> Permission p))"

text \<open>
  \<^verbatim>\<open>ew\<close> is a pointer: the function returns, with its result, the value it leaves in
  \<^verbatim>\<open>*ew\<close>. \<^verbatim>\<open>len(ew.Permissions) == 0\<close> holds of the nil map and of the empty map alike.
\<close>

definition Parse ::
  "('p, 'b, 'm) collaborators \<Rightarrow> Project \<Rightarrow> 'b exp_Workflow \<Rightarrow> store \<Rightarrow>
   (err + store \<times> 'p Workflow) \<times> 'b exp_Workflow" where
  "Parse C proj ew S =
    (if \<not> NamePatternRegex C (ew_Name ew) then
       (Inl (WrapError (Sdk ErrInvalidApplicationPattern)
              (''Workflow name '' @ ew_Name ew @ '' do not respect pattern '' @ NamePattern C)), ew)
     else
       let ew1 = (if ew_Permissions ew = Map.empty
                  then ew\<lparr>ew_Permissions := inherit_permissions (ProjectGroups proj) Map.empty\<rparr>
                  else ew)
       in case GetWorkflow C ew1 S of
            Inl errW \<Rightarrow> (Inl (NewError ErrWrongRequest errW), ew1)
          | Inr (S1, w) \<Rightarrow> (Inr (S1, w\<lparr>ProjectID := proj_ID proj, ProjectKey := proj_Key proj\<rparr>), ew1))"


subsection \<open>ParseAndImport (workflow_parser.go, 59-197)\<close>

text \<open>The pairs held by a configuration: none for the nil map.\<close>

definition cell :: "store \<Rightarrow> nat option \<Rightarrow> WorkflowNodeHookConfig" where
  "cell S c = (case c of None \<Rightarrow> Map.empty | Some a \<Rightarrow> if a < length S then S ! a else Map.empty)"

text \<open>
  Modelled from the spec: \<^verbatim>\<open>WorkflowNodeHookConfig.Clone()\<close> is in the sdk, outside the two
  files. The specification has it produce "a cloned copy" of the configuration, "clone, not
  aliasing": a new map holding the same pairs. The new map takes the next free address of
  the store; the result is the store and that address.
\<close>

definition Clone :: "store \<Rightarrow> WorkflowNodeHookConfig \<Rightarrow> store \<times> nat" where
  "Clone S cfg = (S @ [cfg], length S)"

text \<open>The assignment \<^verbatim>\<open>h.Config[k] = v\<close> on the map at address \<open>a\<close>.\<close>

definition set_config :: "store \<Rightarrow> nat \<Rightarrow> string \<Rightarrow> WorkflowNodeHookConfigValue \<Rightarrow> store" where
  "set_config S a k v = S[a := (S ! a)(k \<mapsto> v)]"

text \<open>
  Modelled from the spec: \<^verbatim>\<open>Workflow.GetApplication\<close> is in the sdk, outside the two files.
  The specification has the step overwrite "that application's VCS linkage in the new
  workflow's application map": the application is the map's entry for the id, the zero
  Application when the map has none.
\<close>

definition GetApplication :: "'p Workflow \<Rightarrow> int \<Rightarrow> Application" where
  "GetApplication w ID = (case Applications w ID of None \<Rightarrow> zero_Application | Some app \<Rightarrow> app)"

text \<open>Lines 87-90.\<close>

definition set_origin :: "ImportOptions \<Rightarrow> 'p Workflow \<Rightarrow> 'p Workflow" where
  "set_origin opts w =
    (let w1 = w\<lparr>FromRepository := opts_FromRepository opts\<rparr> in
     if \<not> opts_IsDefaultBranch opts then w1\<lparr>DerivationBranch := opts_FromBranch opts\<rparr> else w1)"

text \<open>Lines 92-100.\<close>

definition override_application :: "ImportOptions \<Rightarrow> 'p Workflow \<Rightarrow> 'p Workflow" where
  "override_application opts w =
    (let appID = ApplicationID (Context (WorkflowData_Node w)) in
     if opts_VCSServer opts \<noteq> '''' \<and> appID \<noteq> 0 then
       let app = GetApplication w appID;
           app1 = app\<lparr>app_VCSServer := opts_VCSServer opts,
                     app_RepositoryFullname := opts_RepositoryName opts,
                     app_RepositoryStrategy := opts_RepositoryStrategy opts\<rparr>
       in w\<lparr>Applications := (Applications w)(appID \<mapsto> app1)\<rparr>
     else w)"

text \<open>\<^verbatim>\<open>sdk.WorkflowNodeHookConfigValue{Value: w.Name}\<close>.\<close>

definition workflow_name_value :: "string \<Rightarrow> WorkflowNodeHookConfigValue" where
  "workflow_name_value name = \<lparr>Value = name, Configurable = False, Type = ''''\<rparr>"

text \<open>
  The loop of lines 118-127 over the new workflow's root hooks: the first hook of the
  repository webhook model takes the old hook's UUID and a clone of its configuration with
  the workflow's name, and the loop breaks. \<open>None\<close>: no hook matched
  (\<^verbatim>\<open>currentRepoWebHook\<close> is still nil).
\<close>

fun update_current_hook ::
  "('p, 'b, 'm) collaborators \<Rightarrow> string \<Rightarrow> NodeHook \<Rightarrow> store \<Rightarrow> NodeHook list \<Rightarrow>
   (store \<times> NodeHook list) option" where
  "update_current_hook C name old S [] = None"
| "update_current_hook C name old S (h # hs) =
    (if HookModelName h = model_Name (RepositoryWebHookModel C) then
       (case Clone S (cell S (Config old)) of
          (S1, a) \<Rightarrow>
            Some (set_config S1 a (HookConfigWorkflow C) (workflow_name_value name),
                  h\<lparr>UUID := UUID old, Config := Some a\<rparr> # hs))
     else
       (case update_current_hook C name old S hs of
          None \<Rightarrow> None
        | Some (S', hs') \<Rightarrow> Some (S', h # hs')))"

text \<open>Lines 114-140: the old workflow has a repository webhook \<open>old\<close>.\<close>

definition adopt_old_hook ::
  "('p, 'b, 'm) collaborators \<Rightarrow> NodeHook \<Rightarrow> store \<times> 'p Workflow \<Rightarrow> store \<times> 'p Workflow" where
  "adopt_old_hook C old st =
    (let S = fst st; w = snd st; node = WorkflowData_Node w in
     case update_current_hook C (wf_Name w) old S (Hooks node) of
       Some (S', hs') \<Rightarrow> (S', w\<lparr>WorkflowData_Node := node\<lparr>Hooks := hs'\<rparr>\<rparr>)
     | None \<Rightarrow>
         (case Clone S (cell S (Config old)) of
            (S1, a) \<Rightarrow>
              let h = \<lparr>UUID = UUID old, HookModelName = HookModelName old,
                       HookModelID = HookModelID old, Config = Some a\<rparr>
              in (set_config S1 a (HookConfigWorkflow C) (workflow_name_value (wf_Name w)),
                  w\<lparr>WorkflowData_Node := node\<lparr>Hooks := Hooks node @ [h]\<rparr>\<rparr>)))"

text \<open>Lines 145-169: no old workflow, or none of its root hooks is a repository webhook.\<close>

definition create_repo_webhook ::
  "('p, 'b, 'm) collaborators \<Rightarrow> Project \<Rightarrow> store \<times> 'p Workflow \<Rightarrow> err + store \<times> 'p Workflow" where
  "create_repo_webhook C proj st =
    (let S = fst st; w = snd st; node = WorkflowData_Node w; M = RepositoryWebHookModel C in
     case Clone S (model_DefaultConfig M) of
       (S1, a) \<Rightarrow>
         let newRepoWebHook = \<lparr>UUID = '''', HookModelName = model_Name M,
                                HookModelID = model_ID M, Config = Some a\<rparr>;
             hasARepoWebHook = list_ex (\<lambda>h. Ref C S1 h = Ref C S1 newRepoWebHook) (Hooks node);
             w1 = (if \<not> hasARepoWebHook
                   then w\<lparr>WorkflowData_Node := node\<lparr>Hooks := Hooks node @ [newRepoWebHook]\<rparr>\<rparr>
                   else w)
         in case DefaultPayload_func C proj (S1, w1) of
              Inl e \<Rightarrow> Inl (WrapError e ''Unable to get default payload'')
            | Inr payload \<Rightarrow>
                Inr (S1, w1\<lparr>WorkflowData_Node := (WorkflowData_Node w1)
                       \<lparr>Context := (Context (WorkflowData_Node w1))\<lparr>DefaultPayload := payload\<rparr>\<rparr>\<rparr>))"

text \<open>Lines 105-112: the first root hook of the old workflow with the model's name.\<close>

definition old_repo_webhook ::
  "('p, 'b, 'm) collaborators \<Rightarrow> 'p Workflow option \<Rightarrow> NodeHook option" where
  "old_repo_webhook C oldW =
    (case oldW of
       None \<Rightarrow> None
     | Some ow \<Rightarrow>
         find (\<lambda>h. HookModelName h = model_Name (RepositoryWebHookModel C))
           (Hooks (WorkflowData_Node ow)))"

text \<open>Lines 102-170.\<close>

definition reconcile_repo_webhook ::
  "('p, 'b, 'm) collaborators \<Rightarrow> Project \<Rightarrow> 'p Workflow option \<Rightarrow> store \<times> 'p Workflow \<Rightarrow>
   err + store \<times> 'p Workflow" where
  "reconcile_repo_webhook C proj oldW st =
    (if FromRepository (snd st) \<noteq> '''' then
       let oldRepoWebHook = old_repo_webhook C oldW;
           st1 = (case oldRepoWebHook of None \<Rightarrow> st | Some old \<Rightarrow> adopt_old_hook C old st)
       in if oldW = None \<or> oldRepoWebHook = None then create_repo_webhook C proj st1 else Inr st1
     else Inr st)"

text \<open>Lines 87-174: from the origin to the test of the workflow's name.\<close>

definition reconcile ::
  "('p, 'b, 'm) collaborators \<Rightarrow> Project \<Rightarrow> 'p Workflow option \<Rightarrow> ImportOptions \<Rightarrow>
   store \<times> 'p Workflow \<Rightarrow> err + store \<times> 'p Workflow" where
  "reconcile C proj oldW opts st =
    (let w2 = override_application opts (set_origin opts (snd st)) in
     case reconcile_repo_webhook C proj oldW (fst st, w2) of
       Inl e \<Rightarrow> Inl e
     | Inr (S3, w3) \<Rightarrow>
         if opts_WorkflowName opts \<noteq> '''' \<and> wf_Name w3 \<noteq> opts_WorkflowName opts
         then Inl (WrapError (Sdk ErrWorkflowNameImport) ''Wrong workflow name'')
         else Inr (S3, w3))"

text \<open>
  What ParseAndImport returns (the workflow, the messages, the error) and what it leaves in
  \<^verbatim>\<open>*ew\<close>. The messages \<^verbatim>\<open>Import\<close> sends on the channel are appended by the draining
  goroutine in the order sent; the function waits for it before it returns.
\<close>

record ('p, 'b, 'm) import_result =
  ret_w :: "(store \<times> 'p Workflow) option"
  ret_msgs :: "'m list"
  ret_err :: "err option"
  left_ew :: "'b exp_Workflow"

definition failed :: "err \<Rightarrow> 'm list \<Rightarrow> 'b exp_Workflow \<Rightarrow> ('p, 'b, 'm) import_result" where
  "failed e msgs ew = \<lparr>ret_w = None, ret_msgs = msgs, ret_err = Some e, left_ew = ew\<rparr>"

definition ParseAndImport ::
  "('p, 'b, 'm) collaborators \<Rightarrow> Project \<Rightarrow> 'p Workflow option \<Rightarrow> 'b exp_Workflow \<Rightarrow>
   ImportOptions \<Rightarrow> store \<Rightarrow> ('p, 'b, 'm) import_result" where
  "ParseAndImport C proj oldW ew opts S =
    (case Parse C proj ew S of
       (Inl errW, ew1) \<Rightarrow> failed errW [] ew1
     | (Inr st, ew1) \<Rightarrow>
         (case IsValid C st proj (opts_HookUUID opts \<noteq> '''') of
            Inl e \<Rightarrow>
              (case ErrorToMessage C e of
                 Some msg \<Rightarrow> failed (WrapError e ''Workflow is not valid'') [msg] ew1
               | None \<Rightarrow> failed (WrapError e ''Workflow is not valid'') [] ew1)
          | Inr st1 \<Rightarrow>
              (case RenameNode C st1 of
                 Inl e \<Rightarrow> failed (WrapError e ''Unable to rename node'') [] ew1
               | Inr st2 \<Rightarrow>
                   (case reconcile C proj oldW opts st2 of
                      Inl e \<Rightarrow> failed e [] ew1
                    | Inr st3 \<Rightarrow>
                        (case Import C proj oldW st3 (opts_Force opts) of
                           (st4, msgList, globalError) \<Rightarrow>
                             \<lparr>ret_w = Some st4, ret_msgs = msgList, ret_err = globalError,
                              left_ew = ew1\<rparr>)))))"


subsection \<open>Reconciliation as the specification words it\<close>

definition root_hooks :: "'p Workflow \<Rightarrow> NodeHook list" where
  "root_hooks w = Hooks (WorkflowData_Node w)"

definition with_hooks :: "'p Workflow \<Rightarrow> NodeHook list \<Rightarrow> 'p Workflow" where
  "with_hooks w hs = w\<lparr>WorkflowData_Node := (WorkflowData_Node w)\<lparr>Hooks := hs\<rparr>\<rparr>"

definition with_payload :: "'p Workflow \<Rightarrow> 'p \<Rightarrow> 'p Workflow" where
  "with_payload w payload =
    w\<lparr>WorkflowData_Node := (WorkflowData_Node w)
         \<lparr>Context := (Context (WorkflowData_Node w))\<lparr>DefaultPayload := payload\<rparr>\<rparr>\<rparr>"

definition is_repo_webhook :: "('p, 'b, 'm) collaborators \<Rightarrow> NodeHook \<Rightarrow> bool" where
  "is_repo_webhook C h = (HookModelName h = model_Name (RepositoryWebHookModel C))"

text \<open>
  Step 3b: the first hook of the model, if there is one, takes the legacy hook's UUID and
  the configuration at address \<open>a\<close>; if there is none, a hook with the legacy UUID, model
  and that configuration is appended.
\<close>

definition legacy_hooks ::
  "('p, 'b, 'm) collaborators \<Rightarrow> NodeHook \<Rightarrow> nat \<Rightarrow> NodeHook list \<Rightarrow> NodeHook list" where
  "legacy_hooks C old a hs =
    (case dropWhile (\<lambda>h. \<not> is_repo_webhook C h) hs of
       [] \<Rightarrow> hs @ [\<lparr>UUID = UUID old, HookModelName = HookModelName old,
                    HookModelID = HookModelID old, Config = Some a\<rparr>]
     | h # rest \<Rightarrow>
         takeWhile (\<lambda>h. \<not> is_repo_webhook C h) hs @ h\<lparr>UUID := UUID old, Config := Some a\<rparr> # rest)"

text \<open>The legacy configuration with the workflow-name key set to the new name.\<close>

definition legacy_config ::
  "('p, 'b, 'm) collaborators \<Rightarrow> store \<Rightarrow> NodeHook \<Rightarrow> string \<Rightarrow> WorkflowNodeHookConfig" where
  "legacy_config C S old name =
    (cell S (Config old))(HookConfigWorkflow C \<mapsto> workflow_name_value name)"

text \<open>Step 3c: the repository webhook with the default configuration at address \<open>a\<close>.\<close>

definition default_hook :: "('p, 'b, 'm) collaborators \<Rightarrow> nat \<Rightarrow> NodeHook" where
  "default_hook C a =
    \<lparr>UUID = '''', HookModelName = model_Name (RepositoryWebHookModel C),
     HookModelID = model_ID (RepositoryWebHookModel C), Config = Some a\<rparr>"

definition default_hooks ::
  "('p, 'b, 'm) collaborators \<Rightarrow> store \<Rightarrow> NodeHook list \<Rightarrow> NodeHook list" where
  "default_hooks C S hs =
    (let S1 = S @ [model_DefaultConfig (RepositoryWebHookModel C)];
         new = default_hook C (length S)
     in if list_ex (\<lambda>h. Ref C S1 h = Ref C S1 new) hs then hs else hs @ [new])"

text \<open>
  Collaborators to run the functions on concrete inputs: the name pattern is one or more
  letters, digits, dots, underscores or dashes; the exported workflow's body is its root
  node; validation, renaming and import accept everything and change nothing; a hook's
  reference is read from its model name and from the method of its configuration.
\<close>

definition name_char :: "char \<Rightarrow> bool" where
  "name_char c =
    (c \<in> set ''abcdefghijklmnopqrstuvwxyzABCDEFGHIJKLMNOPQRSTUVWXYZ0123456789._-'')"

definition sample_collaborators :: "(string, string Node, string) collaborators" where
  "sample_collaborators =
    \<lparr>NamePatternRegex = (\<lambda>s. s \<noteq> [] \<and> list_all name_char s),
     NamePattern = ''^[a-zA-Z0-9._-]{1,}$'',
     GetWorkflow = (\<lambda>ew S. Inr (S,
        \<lparr>wf_Name = ew_Name ew, ProjectID = 0, ProjectKey = '''', FromRepository = '''',
         DerivationBranch = '''', WorkflowData_Node = ew_Body ew, Applications = Map.empty\<rparr>)),
     IsValid = (\<lambda>st proj deep. Inr st),
     ErrorToMessage = (\<lambda>e. None),
     RenameNode = (\<lambda>st. Inr st),
     DefaultPayload_func = (\<lambda>proj st. Inr ''git.branch: master''),
     Import = (\<lambda>proj oldW st force. (st, [], None)),
     Ref = (\<lambda>S h. ''model:'' @ HookModelName h @ '';method:'' @
              (case cell S (Config h) ''method'' of None \<Rightarrow> '''' | Some v \<Rightarrow> Value v)),
     RepositoryWebHookModel =
       \<lparr>model_Name = ''RepositoryWebHook'', model_ID = 1,
        model_DefaultConfig =
          [''method'' \<mapsto> \<lparr>Value = ''POST'', Configurable = False, Type = ''string''\<rparr>]\<rparr>,
     HookConfigWorkflow = ''workflow''\<rparr>"


text \<open>Workflows, hooks, options and a project to run the reconciliation on.\<close>

definition sample_value :: "string \<Rightarrow> WorkflowNodeHookConfigValue" where
  "sample_value v = \<lparr>Value = v, Configurable = False, Type = ''string''\<rparr>"

definition sample_workflow :: "NodeHook list \<Rightarrow> int \<Rightarrow> string Workflow" where
  "sample_workflow hs appID =
    \<lparr>wf_Name = ''my-workflow'', ProjectID = 1, ProjectKey = ''KEY'',
     FromRepository = ''https://github.com/org/repo.git'', DerivationBranch = '''',
     WorkflowData_Node = \<lparr>Hooks = hs, Context = \<lparr>ApplicationID = appID, DefaultPayload = ''''\<rparr>\<rparr>,
     Applications = Map.empty\<rparr>"

definition repo_hook :: "string \<Rightarrow> nat option \<Rightarrow> NodeHook" where
  "repo_hook uuid cfg =
    \<lparr>UUID = uuid, HookModelName = ''RepositoryWebHook'', HookModelID = 1, Config = cfg\<rparr>"

definition sample_options :: "string \<Rightarrow> string \<Rightarrow> string \<Rightarrow> ImportOptions" where
  "sample_options from_repo vcs wname =
    \<lparr>opts_Force = False, opts_WorkflowName = wname, opts_FromRepository = from_repo,
     opts_IsDefaultBranch = True, opts_FromBranch = ''master'', opts_VCSServer = vcs,
     opts_RepositoryName = ''org/repo'',
     opts_RepositoryStrategy =
       \<lparr>ConnectionType = ''https'', SSHKey = '''', SSHKeyContent = '''', User = ''bot'',
        Password = ''''\<rparr>,
     opts_HookUUID = ''''\<rparr>"

definition sample_project :: Project where
  "sample_project =
    \<lparr>proj_ID = 1, proj_Key = ''KEY'', ProjectGroups = [\<lparr>Group_Name = ''devs'', Permission = 7\<rparr>]\<rparr>"

text \<open>A hook configuration that holds a method alone.\<close>

definition method_config :: "string \<Rightarrow> WorkflowNodeHookConfig" where
  "method_config m = [''method'' \<mapsto> \<lparr>Value = m, Configurable = False, Type = ''string''\<rparr>]"

section \<open>Properties\<close>

subsection \<open>Facts about strings.Contains\<close>

lemma HasPrefix_append: "HasPrefix s p = (\<exists>q. s = p @ q)"
  by (induction s p rule: HasPrefix.induct) auto

lemma Contains_iff: "Contains s sub = (\<exists>p q. s = p @ sub @ q)"
proof (induction s)
  case Nil
  then show ?case by auto
next
  case (Cons c s)
  show ?case
  proof
    assume "Contains (c # s) sub"
    then consider "HasPrefix (c # s) sub" | "Contains s sub"
      by (auto split: if_splits)
    then show "\<exists>p q. c # s = p @ sub @ q"
    proof cases
      case 1
      then obtain q where "c # s = sub @ q" by (auto simp: HasPrefix_append)
      then have "c # s = [] @ sub @ q" by simp
      then show ?thesis by blast
    next
      case 2
      then obtain p q where "s = p @ sub @ q" using Cons.IH by blast
      then have "c # s = (c # p) @ sub @ q" by simp
      then show ?thesis by blast
    qed
  next
    assume "\<exists>p q. c # s = p @ sub @ q"
    then obtain p q where pq: "c # s = p @ sub @ q" by blast
    show "Contains (c # s) sub"
    proof (cases p)
      case Nil
      with pq have "HasPrefix (c # s) sub" by (auto simp: HasPrefix_append)
      then show ?thesis by simp
    next
      case (Cons a p')
      with pq have "s = p' @ sub @ q" by simp
      then have "Contains s sub" using Cons.IH by blast
      then show ?thesis by simp
    qed
  qed
qed

subsection \<open>Extraction: the loop against the specification's reading\<close>

lemma extract_entry_deserialize:
  "extract_entry Y name b (res, errs) =
    (case deserialize Y name b res of
       (res', Some e) \<Rightarrow> (res', errs @ [unmarshal_error name e])
     | (res', None) \<Rightarrow> (res', errs))"
  by (simp add: extract_entry_def deserialize_def classify_def unmarshal_error_def
      split: sum.splits prod.splits option.splits)

lemma extract_loop_readable:
  "extract_loop Y (readable es) (res, errs) =
     Inr (populate Y res es, errs @ map (\<lambda>(n, e). unmarshal_error n e) (failures Y res es))"
proof (induction es arbitrary: res errs)
  case Nil
  show ?case by (simp add: readable_def)
next
  case (Cons x es)
  obtain n b where x: "x = (n, b)" by (cases x)
  obtain res' e where d: "deserialize Y n b res = (res', e)" by (cases "deserialize Y n b res")
  have step: "extract_loop Y (readable ((n, b) # es)) (res, errs) =
      extract_loop Y (readable es) (extract_entry Y n b (res, errs))"
    by (simp add: readable_def)
  show ?case
    unfolding x by (cases e) (simp_all add: step d extract_entry_deserialize Cons.IH)
qed

lemma extractFromCDSFiles_readable:
  "extractFromCDSFiles Y w0 (readable es) =
     (if failures Y (empty_bundle w0) es = [] then Inr (populate Y (empty_bundle w0) es)
      else Inl (NewError ErrWorkflowInvalid
             (MultiError (map (\<lambda>(n, e). unmarshal_error n e) (failures Y (empty_bundle w0) es)))))"
proof -
  have "extract_loop Y (readable es) (empty_bundle w0, []) =
      Inr (populate Y (empty_bundle w0) es,
           map (\<lambda>(n, e). unmarshal_error n e) (failures Y (empty_bundle w0) es))"
    using extract_loop_readable [of Y es "empty_bundle w0" "[]"] by simp
  then show ?thesis
    by (simp add: extractFromCDSFiles_def empty_bundle_def)
qed

lemma populate_append:
  "populate Y res (es1 @ es2) = populate Y (populate Y res es1) es2"
  by (induction es1 arbitrary: res) auto

lemma failures_append:
  "failures Y res (es1 @ es2) = failures Y res es1 @ failures Y (populate Y res es1) es2"
proof (induction es1 arbitrary: res)
  case Nil
  show ?case by simp
next
  case (Cons x es1)
  obtain n b where x: "x = (n, b)" by (cases x)
  obtain res' e where d: "deserialize Y n b res = (res', e)" by (cases "deserialize Y n b res")
  show ?case
    by (cases e) (simp_all add: x d Cons.IH)
qed

lemma unmarshal_error_names_file:
  "\<exists>t. unmarshal_error name e = Errorf t \<and> Contains t name \<and> Contains t e"
proof -
  let ?p = "''Unable to unmarshal '' @ kind_word (classify name) @ '' ''"
  let ?t = "?p @ name @ '': '' @ e"
  have "\<exists>p q. ?t = p @ name @ q" by blast
  moreover have "?t = (?p @ name @ '': '') @ e @ []" by simp
  then have "\<exists>p q. ?t = p @ e @ q" by blast
  ultimately have "Contains ?t name \<and> Contains ?t e"
    by (simp only: Contains_iff)
  moreover have "unmarshal_error name e = Errorf ?t"
    by (simp add: unmarshal_error_def)
  ultimately show ?thesis by blast
qed

text \<open>
  Whether an application file fails does not depend on what was read before it: wherever
  it stands in the archive, it is among the failures.
\<close>

lemma failing_application_reported:
  assumes "(name, b) \<in> set es" and "classify name = KApplication" and "um_app Y b = Inl e"
  shows "(name, e) \<in> set (failures Y res es)"
  using assms
proof (induction es arbitrary: res)
  case Nil
  then show ?case by simp
next
  case (Cons x es)
  obtain n c where x: "x = (n, c)" by (cases x)
  obtain res' r where d: "deserialize Y n c res = (res', r)" by (cases "deserialize Y n c res")
  show ?case
  proof (cases "(name, b) = x")
    case True
    with x have nb: "n = name" "c = b" by simp_all
    have "deserialize Y name b res = (res, Some e)"
      using Cons.prems(2,3) by (simp add: deserialize_def)
    then show ?thesis by (simp add: x nb)
  next
    case False
    with Cons.prems(1) have "(name, b) \<in> set es" by auto
    then have "(name, e) \<in> set (failures Y res' es)"
      using Cons.IH Cons.prems(2,3) by blast
    then show ?thesis by (cases r) (simp_all add: x d)
  qed
qed

text \<open>
  C4. Every entry of a readable archive is deserialized on its own: the loop consumes all
  entries and never stops at a failing one, the collector holds one error per failing
  entry in archive order, and each error's text names its file. After the last entry the
  bundle is returned when the collector is empty; otherwise the result is the single
  "workflow invalid" error wrapping the collector, and no bundle. An entry after a failing
  one is still processed (the failures of \<open>es1 @ es2\<close> are those of \<open>es1\<close> followed by
  those of \<open>es2\<close>).
\<close>

theorem extraction_partial_failure:
  "extract_loop Y (readable es) (empty_bundle w0, []) =
     Inr (populate Y (empty_bundle w0) es,
          map (\<lambda>(n, e). unmarshal_error n e) (failures Y (empty_bundle w0) es))
   \<and> extractFromCDSFiles Y w0 (readable es) =
     (if failures Y (empty_bundle w0) es = [] then Inr (populate Y (empty_bundle w0) es)
      else Inl (NewError ErrWorkflowInvalid
             (MultiError (map (\<lambda>(n, e). unmarshal_error n e) (failures Y (empty_bundle w0) es)))))
   \<and> failures Y res (es1 @ es2) = failures Y res es1 @ failures Y (populate Y res es1) es2
   \<and> (\<exists>t. unmarshal_error name e = Errorf t \<and> Contains t name)"
proof -
  have "extract_loop Y (readable es) (empty_bundle w0, []) =
     Inr (populate Y (empty_bundle w0) es,
          map (\<lambda>(n, e). unmarshal_error n e) (failures Y (empty_bundle w0) es))"
    using extract_loop_readable [of Y es "empty_bundle w0" "[]"] by simp
  moreover note extractFromCDSFiles_readable [of Y w0 es] failures_append [of Y res es1 es2]
  moreover have "\<exists>t. unmarshal_error name e = Errorf t \<and> Contains t name"
    using unmarshal_error_names_file [of name e] by blast
  ultimately show ?thesis by blast
qed

text \<open>
  Three files, the second of which does not deserialize: extraction fails, and the combined
  error holds the failing file alone.
\<close>

theorem extraction_partial_failure_example:
  "extractFromCDSFiles sample_yaml ''''
     (readable [(''w.yml'', ''name: w''), (''a.app.yml'', ''''), (''p.pip.yml'', ''name: p'')]) =
   Inl (NewError ErrWorkflowInvalid
         (MultiError [Errorf ''Unable to unmarshal application a.app.yml: EOF'']))"
proof -
  let ?es = "[(''w.yml'', ''name: w''), (''a.app.yml'', ''''), (''p.pip.yml'', ''name: p'')]"
  have f: "failures sample_yaml (empty_bundle '''') ?es = [(''a.app.yml'', ''EOF'')]"
    by (simp add: deserialize_def classify_def sample_yaml_def empty_bundle_def)
  have u: "unmarshal_error ''a.app.yml'' ''EOF'' =
      Errorf ''Unable to unmarshal application a.app.yml: EOF''"
    by (simp add: unmarshal_error_def classify_def)
  have "extractFromCDSFiles sample_yaml '''' (readable ?es) =
     (if failures sample_yaml (empty_bundle '''') ?es = []
      then Inr (populate sample_yaml (empty_bundle '''') ?es)
      else Inl (NewError ErrWorkflowInvalid
             (MultiError (map (\<lambda>(n, e). unmarshal_error n e)
                (failures sample_yaml (empty_bundle '''') ?es)))))"
    using extraction_partial_failure [of sample_yaml ?es "''''"] by blast
  then show ?thesis
    by (simp only: f) (simp add: u)
qed

text \<open>
  C1. The claim is that a second workflow-shaped entry is reported ("two workflows files
  found") and dropped. The code does neither: for two entries whose names hold none of
  \<open>.app.\<close>, \<open>.pip.\<close>, \<open>.env.\<close> and which both deserialize, extraction succeeds, and the
  bundle's workflow is what decoding the second file over the first leaves.
\<close>

theorem second_workflow_file_overwrites_first:
  assumes "classify n1 = KWorkflow" and "classify n2 = KWorkflow"
    and "um_wrkflw Y b1 w0 = (w1, None)" and "um_wrkflw Y b2 w1 = (w2, None)"
  shows "extractFromCDSFiles Y w0 [Entry n1 b1, Entry n2 b2] =
     Inr \<lparr>wrkflw = w2, apps = Map.empty, pips = Map.empty, envs = Map.empty\<rparr>"
proof -
  have n1: "\<not> Contains n1 ''.app.''" "\<not> Contains n1 ''.pip.''" "\<not> Contains n1 ''.env.''"
    using assms(1) by (auto simp: classify_def split: if_splits)
  have n2: "\<not> Contains n2 ''.app.''" "\<not> Contains n2 ''.pip.''" "\<not> Contains n2 ''.env.''"
    using assms(2) by (auto simp: classify_def split: if_splits)
  show ?thesis
    using n1 n2 assms(3,4) by (simp add: extractFromCDSFiles_def extract_entry_def)
qed

theorem second_workflow_file_overwrites_first_example:
  "classify ''a.yml'' = KWorkflow \<and> classify ''b.yml'' = KWorkflow
   \<and> um_wrkflw sample_yaml ''name: first'' '''' = (''name: first'', None)
   \<and> um_wrkflw sample_yaml ''name: second'' ''name: first'' = (''name: second'', None)
   \<and> extractFromCDSFiles sample_yaml ''''
       [Entry ''a.yml'' ''name: first'', Entry ''b.yml'' ''name: second''] =
     Inr \<lparr>wrkflw = ''name: second'', apps = Map.empty, pips = Map.empty, envs = Map.empty\<rparr>"
proof -
  have c: "classify ''a.yml'' = KWorkflow" "classify ''b.yml'' = KWorkflow"
    by (simp_all add: classify_def)
  have u: "um_wrkflw sample_yaml ''name: first'' '''' = (''name: first'', None)"
    "um_wrkflw sample_yaml ''name: second'' ''name: first'' = (''name: second'', None)"
    by (simp_all add: sample_yaml_def)
  show ?thesis
    using c u second_workflow_file_overwrites_first [OF c u] by blast
qed

subsection \<open>The operation poller\<close>

lemma poll_loop_goes_on:
  "list_all goes_on pre \<Longrightarrow>
   poll_loop fmt (pre @ evs) ope n =
   poll_loop fmt evs (ope_after pre ope) (n + length (filter is_poll pre))"
proof (induction pre arbitrary: ope n)
  case Nil
  show ?case by simp
next
  case (Cons ev pre)
  then have g: "goes_on ev" and rest: "list_all goes_on pre" by simp_all
  show ?case
  proof (cases ev)
    case (CtxDone e)
    with g have "e = None" by (cases e) simp_all
    with CtxDone show ?thesis using Cons.IH [OF rest] by simp
  next
    case TickTimeout
    with g show ?thesis by simp
  next
    case (TickPoll op e)
    with g have e: "e = None" by (cases e) simp_all
    from g TickPoll e have
      "ope_Status op = OperationStatusPending \<or> ope_Status op = OperationStatusProcessing"
      by simp
    then show ?thesis
      using Cons.IH [OF rest, of op "Suc n"] by (auto simp: TickPoll e)
  qed
qed

lemma poll_after_goes_on:
  "list_all goes_on pre \<Longrightarrow>
   pollRepositoryOperation fmt (pre @ evs) ope =
   (case poll_loop fmt evs (ope_after pre ope) (length (filter is_poll pre)) of
      None \<Rightarrow> None
    | Some (r, ope', n) \<Rightarrow>
        Some \<lparr>poll_ret = r, poll_ope = ope', poll_fetches = n,
              poll_tickers = \<lparr>tickTimeout_running = False, tickPoll_running = True\<rparr>\<rparr>)"
  by (simp add: pollRepositoryOperation_def poll_loop_goes_on split: option.splits prod.splits)

lemma with_secrets_fields [simp]:
  "ope_Status (with_secrets k p op) = ope_Status op"
  "ope_Error (with_secrets k p op) = ope_Error op"
  "with_secrets k' p' (with_secrets k p op) = with_secrets k' p' op"
  "SSHKeyContent (ope_RepositoryStrategy (with_secrets k p op)) = k"
  "Password (ope_RepositoryStrategy (with_secrets k p op)) = p"
  by (simp_all add: with_secrets_def)

text \<open>
  C5. After any number of rounds that let the loop go on, the next delivery decides the
  run, and the poller returns at once (the fetch counter shows that no status is fetched
  after it): status done returns nil; status error returns an error built from the
  operation's error detail; the timeout ticker returns the repo-operation-timeout error;
  a cancelled context returns the context's own error; an error of the status fetch is
  returned as it is, wrapped, with no second fetch. The first four returned values are
  pairwise different.
\<close>

theorem poller_outcomes:
  assumes "list_all goes_on pre"
  shows
   "(ope_Status op = OperationStatusDone \<longrightarrow>
       poll_outcome (pollRepositoryOperation fmt (pre @ TickPoll op None # rest) ope) =
         Some (None, Suc (length (filter is_poll pre))))
    \<and> (ope_Status op = OperationStatusError \<longrightarrow>
       poll_outcome (pollRepositoryOperation fmt (pre @ TickPoll op None # rest) ope) =
         Some (Some (WrapError (Errorf (ope_Error op))
                 (''getImportAsCodeHandler> Operation in error. '' @
                  fmt (with_secrets ''***'' ''***'' op))),
               Suc (length (filter is_poll pre))))
    \<and> poll_outcome (pollRepositoryOperation fmt (pre @ TickTimeout # rest) ope) =
         Some (Some (WrapError (Sdk ErrRepoOperationTimeout)
                 ''pollRepositoryOperation> Timeout analyzing repository''),
               length (filter is_poll pre))
    \<and> poll_outcome (pollRepositoryOperation fmt (pre @ CtxDone (Some c) # rest) ope) =
         Some (Some (WrapError (CtxErr c) ''pollRepositoryOperation> Exiting''),
               length (filter is_poll pre))
    \<and> poll_outcome (pollRepositoryOperation fmt (pre @ TickPoll op (Some e) # rest) ope) =
         Some (Some (WrapError e ''Cannot get repository operation status''),
               Suc (length (filter is_poll pre)))
    \<and> (ope_Status d = OperationStatusDone \<and> ope_Status x = OperationStatusError \<longrightarrow>
       distinct (map (\<lambda>evs. map_option poll_ret (pollRepositoryOperation fmt (pre @ evs) ope))
         [TickPoll d None # rest, TickPoll x None # rest, TickTimeout # rest,
          CtxDone (Some c) # rest]))"
  using assms
  by (simp add: poll_after_goes_on poll_outcome_def with_secrets_def)

theorem poller_outcomes_example:
  "list_all goes_on [TickPoll sample_operation None, CtxDone None]
   \<and> ope_Status (sample_operation\<lparr>ope_Status := OperationStatusDone\<rparr>) = OperationStatusDone
   \<and> ope_Status (sample_operation\<lparr>ope_Status := OperationStatusError, ope_Error := ''clone failed''\<rparr>)
        = OperationStatusError
   \<and> poll_outcome (pollRepositoryOperation sample_format
        ([TickPoll sample_operation None, CtxDone None] @
         [TickPoll (sample_operation\<lparr>ope_Status := OperationStatusDone\<rparr>) None, TickTimeout])
        sample_operation) = Some (None, 2)
   \<and> poll_outcome (pollRepositoryOperation sample_format
        ([TickPoll sample_operation None, CtxDone None] @
         [TickPoll (sample_operation\<lparr>ope_Status := OperationStatusError, ope_Error := ''clone failed''\<rparr>)
            None, TickTimeout])
        sample_operation) =
      Some (Some (WrapError (Errorf ''clone failed'')
              (''getImportAsCodeHandler> Operation in error. '' @
               sample_format (with_secrets ''***'' ''***''
                 (sample_operation\<lparr>ope_Status := OperationStatusError, ope_Error := ''clone failed''\<rparr>)))), 2)
   \<and> poll_outcome (pollRepositoryOperation sample_format
        ([TickPoll sample_operation None, CtxDone None] @
         [TickTimeout, TickPoll (sample_operation\<lparr>ope_Status := OperationStatusDone\<rparr>) None])
        sample_operation) =
      Some (Some (WrapError (Sdk ErrRepoOperationTimeout)
              ''pollRepositoryOperation> Timeout analyzing repository''), 1)
   \<and> poll_outcome (pollRepositoryOperation sample_format
        ([TickPoll sample_operation None, CtxDone None] @ [CtxDone (Some Canceled), TickTimeout])
        sample_operation) =
      Some (Some (WrapError (CtxErr Canceled) ''pollRepositoryOperation> Exiting''), 1)
   \<and> poll_outcome (pollRepositoryOperation sample_format
        ([TickPoll sample_operation None, CtxDone None] @
         [TickPoll sample_operation (Some (Foreign ''connection refused'')), TickTimeout])
        sample_operation) =
      Some (Some (WrapError (Foreign ''connection refused'')
              ''Cannot get repository operation status''), 2)"
proof -
  let ?pre = "[TickPoll sample_operation None, CtxDone None]"
  let ?done = "sample_operation\<lparr>ope_Status := OperationStatusDone\<rparr>"
  let ?err = "sample_operation\<lparr>ope_Status := OperationStatusError, ope_Error := ''clone failed''\<rparr>"
  have g: "list_all goes_on ?pre"
    by (simp add: sample_operation_def)
  have s: "ope_Status ?done = OperationStatusDone" by simp
  have x: "ope_Status ?err = OperationStatusError" by simp
  have n: "length (filter is_poll ?pre) = 1" by simp
  note t = poller_outcomes [OF g, where ope = sample_operation]
  have 1: "poll_outcome (pollRepositoryOperation sample_format
          (?pre @ TickPoll ?done None # [TickTimeout]) sample_operation) = Some (None, 2)"
    using t [of ?done sample_format "[TickTimeout]"] s n by simp
  have 2: "poll_outcome (pollRepositoryOperation sample_format
          (?pre @ TickPoll ?err None # [TickTimeout]) sample_operation) =
      Some (Some (WrapError (Errorf ''clone failed'')
              (''getImportAsCodeHandler> Operation in error. '' @
               sample_format (with_secrets ''***'' ''***''
                 (sample_operation\<lparr>ope_Status := OperationStatusError, ope_Error := ''clone failed''\<rparr>)))), 2)"
    using t [of ?err sample_format "[TickTimeout]"] x n by simp
  have 3: "poll_outcome (pollRepositoryOperation sample_format
          (?pre @ TickTimeout # [TickPoll ?done None]) sample_operation) =
      Some (Some (WrapError (Sdk ErrRepoOperationTimeout)
              ''pollRepositoryOperation> Timeout analyzing repository''), 1)"
    using t [of ?done sample_format "[TickPoll ?done None]"] n by simp
  have 4: "poll_outcome (pollRepositoryOperation sample_format
          (?pre @ CtxDone (Some Canceled) # [TickTimeout]) sample_operation) =
      Some (Some (WrapError (CtxErr Canceled) ''pollRepositoryOperation> Exiting''), 1)"
    using t [of ?done sample_format "[TickTimeout]" Canceled] n by simp
  have 5: "poll_outcome (pollRepositoryOperation sample_format
          (?pre @ TickPoll sample_operation (Some (Foreign ''connection refused'')) # [TickTimeout])
          sample_operation) =
      Some (Some (WrapError (Foreign ''connection refused'')
              ''Cannot get repository operation status''), 2)"
    using t [of sample_operation sample_format "[TickTimeout]" Canceled "Foreign ''connection refused''"] n
    by simp
  from g s x 1 2 3 4 5 show ?thesis by simp
qed

text \<open>
  C6. When the fetched Operation has status error, the returned error is built from the
  error detail and from the formatting of a copy whose SSH key content and password are
  blanked: whatever the two secrets are, the returned error is the same. The caller's
  Operation keeps its secrets: the blanking touches the copy alone, after the status test.
\<close>

theorem error_text_hides_secrets:
  assumes "list_all goes_on pre" and "ope_Status op = OperationStatusError"
  shows
   "map_option poll_ret
      (pollRepositoryOperation fmt (pre @ TickPoll (with_secrets k p op) None # rest) ope) =
      Some (Some (WrapError (Errorf (ope_Error op))
              (''getImportAsCodeHandler> Operation in error. '' @
               fmt (with_secrets ''***'' ''***'' op))))
    \<and> map_option poll_ret
      (pollRepositoryOperation fmt (pre @ TickPoll (with_secrets k p op) None # rest) ope) =
      map_option poll_ret
      (pollRepositoryOperation fmt (pre @ TickPoll (with_secrets k' p' op) None # rest) ope)
    \<and> map_option poll_ope
      (pollRepositoryOperation fmt (pre @ TickPoll (with_secrets k p op) None # rest) ope) =
      Some (with_secrets k p op)"
proof -
  have run: "pollRepositoryOperation fmt (pre @ TickPoll (with_secrets a b op) None # rest) ope =
      Some \<lparr>poll_ret = Some (WrapError (Errorf (ope_Error op))
               (''getImportAsCodeHandler> Operation in error. '' @
                fmt (with_secrets ''***'' ''***'' op))),
            poll_ope = with_secrets a b op,
            poll_fetches = Suc (length (filter is_poll pre)),
            poll_tickers = \<lparr>tickTimeout_running = False, tickPoll_running = True\<rparr>\<rparr>" for a b
  proof -
    have "with_secrets a b op\<lparr>ope_RepositoryStrategy :=
            (ope_RepositoryStrategy (with_secrets a b op))\<lparr>SSHKeyContent := ''***'', Password := ''***''\<rparr>\<rparr>
          = with_secrets ''***'' ''***'' op"
      by (simp add: with_secrets_def)
    then show ?thesis
      using assms by (simp add: poll_after_goes_on)
  qed
  show ?thesis by (simp add: run)
qed

theorem error_text_hides_secrets_example:
  "list_all goes_on [TickPoll sample_operation None]
   \<and> ope_Status (sample_operation\<lparr>ope_Status := OperationStatusError, ope_Error := ''clone failed''\<rparr>)
       = OperationStatusError
   \<and> map_option poll_ret
      (pollRepositoryOperation sample_format
        ([TickPoll sample_operation None] @
         [TickPoll (with_secrets ''PRIVATE KEY'' ''hunter2''
            (sample_operation\<lparr>ope_Status := OperationStatusError, ope_Error := ''clone failed''\<rparr>)) None])
        sample_operation) =
     Some (Some (WrapError (Errorf ''clone failed'')
       (''getImportAsCodeHandler> Operation in error. '' @
        ''{UUID:op-1 RepositoryStrategy:{ConnectionType:ssh SSHKey:proj-key SSHKeyContent:*** User:git Password:***} Error:clone failed}'')))"
proof -
  let ?x = "sample_operation\<lparr>ope_Status := OperationStatusError, ope_Error := ''clone failed''\<rparr>"
  have g: "list_all goes_on [TickPoll sample_operation None]"
    by (simp add: sample_operation_def)
  have s: "ope_Status ?x = OperationStatusError" by simp
  have f: "sample_format (with_secrets ''***'' ''***'' ?x) =
      ''{UUID:op-1 RepositoryStrategy:{ConnectionType:ssh SSHKey:proj-key SSHKeyContent:*** User:git Password:***} Error:clone failed}''"
    by (simp add: sample_format_def with_secrets_def sample_operation_def)
  show ?thesis
    using g s error_text_hides_secrets [OF g s, of sample_format "''PRIVATE KEY''" "''hunter2''" "[]" sample_operation]
    by (simp add: f)
qed

text \<open>
  C9. The claim is that both tickers are stopped on every exit path. Whenever the poller
  returns, the timeout ticker is stopped (the deferred call of line 231) and the poll
  ticker is still running: nothing stops it.
\<close>

theorem poll_ticker_left_running:
  assumes "pollRepositoryOperation fmt evs ope = Some r"
  shows "tickPoll_running (poll_tickers r) \<and> \<not> tickTimeout_running (poll_tickers r)"
  using assms
  by (auto simp: pollRepositoryOperation_def split: option.splits prod.splits)

theorem poll_ticker_left_running_example:
  "pollRepositoryOperation sample_format
     [TickPoll (sample_operation\<lparr>ope_Status := OperationStatusDone\<rparr>) None] sample_operation =
     Some \<lparr>poll_ret = None, poll_ope = sample_operation\<lparr>ope_Status := OperationStatusDone\<rparr>,
           poll_fetches = 1,
           poll_tickers = \<lparr>tickTimeout_running = False, tickPoll_running = True\<rparr>\<rparr>
   \<and> tickPoll_running (poll_tickers
        \<lparr>poll_ret = None, poll_ope = sample_operation\<lparr>ope_Status := OperationStatusDone\<rparr>,
         poll_fetches = 1,
         poll_tickers = \<lparr>tickTimeout_running = False, tickPoll_running = True\<rparr>\<rparr>)"
proof -
  have run: "pollRepositoryOperation sample_format
     [TickPoll (sample_operation\<lparr>ope_Status := OperationStatusDone\<rparr>) None] sample_operation =
     Some \<lparr>poll_ret = None, poll_ope = sample_operation\<lparr>ope_Status := OperationStatusDone\<rparr>,
           poll_fetches = 1,
           poll_tickers = \<lparr>tickTimeout_running = False, tickPoll_running = True\<rparr>\<rparr>"
    by (simp add: pollRepositoryOperation_def)
  show ?thesis
    using run poll_ticker_left_running [OF run] by blast
qed

subsection \<open>Packing\<close>

lemma pack_file_fails_iff:
  "pack_file tw s f = Inl e \<longleftrightarrow>
     (\<exists>e'. tw_WriteHeader tw s (file_header f) = Inl e' \<and> e = WrapError e' ''Cannot write header'')
   \<or> (\<exists>s1 n e' s2. tw_WriteHeader tw s (file_header f) = Inr s1
         \<and> tw_Write tw s1 (snd f) = (n, Some e', s2) \<and> e = WrapError e' ''Cannot write content'')
   \<or> (\<exists>s1 s2. tw_WriteHeader tw s (file_header f) = Inr s1
         \<and> tw_Write tw s1 (snd f) = (0, None, s2) \<and> e = Errorf ''nothing to write'')"
  by (auto simp: pack_file_def file_header_def Let_def split: sum.splits prod.splits option.splits if_splits)

lemma pack_file_succeeds_iff:
  "pack_file tw s f = Inr s2 \<longleftrightarrow>
     (\<exists>s1 n. tw_WriteHeader tw s (file_header f) = Inr s1
         \<and> tw_Write tw s1 (snd f) = (n, None, s2) \<and> 0 < n)"
  by (auto simp: pack_file_def file_header_def Let_def split: sum.splits prod.splits option.splits if_splits)

lemma write_files_append:
  "write_files tw (pre @ files) s =
    (case write_files tw pre s of Inl e \<Rightarrow> Inl e | Inr s' \<Rightarrow> write_files tw files s')"
  by (induction pre arbitrary: s) (auto split: sum.splits)

lemma write_files_fails_iff:
  "write_files tw files s = Inl e \<longleftrightarrow>
     (\<exists>pre f rest s'. files = pre @ f # rest \<and> write_files tw pre s = Inr s'
        \<and> pack_file tw s' f = Inl e)"
proof (induction files arbitrary: s)
  case Nil
  show ?case by simp
next
  case (Cons g files)
  show ?case
  proof (cases "pack_file tw s g")
    case (Inl e')
    show ?thesis
    proof
      assume "write_files tw (g # files) s = Inl e"
      with Inl have "e' = e" by simp
      with Inl have "g # files = [] @ g # files \<and> write_files tw [] s = Inr s \<and> pack_file tw s g = Inl e"
        by simp
      then show "\<exists>pre f rest s'. g # files = pre @ f # rest \<and> write_files tw pre s = Inr s'
          \<and> pack_file tw s' f = Inl e" by blast
    next
      assume "\<exists>pre f rest s'. g # files = pre @ f # rest \<and> write_files tw pre s = Inr s'
          \<and> pack_file tw s' f = Inl e"
      then obtain pre f rest s' where d: "g # files = pre @ f # rest"
        and w: "write_files tw pre s = Inr s'" and p: "pack_file tw s' f = Inl e" by blast
      show "write_files tw (g # files) s = Inl e"
      proof (cases pre)
        case Nil
        with d w p show ?thesis by simp
      next
        case (Cons a pre')
        with d have "a = g" by simp
        with Cons w Inl show ?thesis by simp
      qed
    qed
  next
    case (Inr s2)
    have "write_files tw (g # files) s = Inl e \<longleftrightarrow> write_files tw files s2 = Inl e"
      using Inr by simp
    also have "\<dots> \<longleftrightarrow> (\<exists>pre f rest s'. files = pre @ f # rest \<and> write_files tw pre s2 = Inr s'
        \<and> pack_file tw s' f = Inl e)"
      by (rule Cons.IH)
    also have "\<dots> \<longleftrightarrow> (\<exists>pre f rest s'. g # files = pre @ f # rest \<and> write_files tw pre s = Inr s'
        \<and> pack_file tw s' f = Inl e)"
    proof
      assume "\<exists>pre f rest s'. files = pre @ f # rest \<and> write_files tw pre s2 = Inr s'
        \<and> pack_file tw s' f = Inl e"
      then obtain pre f rest s' where "files = pre @ f # rest" "write_files tw pre s2 = Inr s'"
        "pack_file tw s' f = Inl e" by blast
      with Inr have "g # files = (g # pre) @ f # rest \<and> write_files tw (g # pre) s = Inr s'
        \<and> pack_file tw s' f = Inl e" by simp
      then show "\<exists>pre f rest s'. g # files = pre @ f # rest \<and> write_files tw pre s = Inr s'
        \<and> pack_file tw s' f = Inl e" by blast
    next
      assume "\<exists>pre f rest s'. g # files = pre @ f # rest \<and> write_files tw pre s = Inr s'
        \<and> pack_file tw s' f = Inl e"
      then obtain pre f rest s' where d: "g # files = pre @ f # rest"
        and w: "write_files tw pre s = Inr s'" and p: "pack_file tw s' f = Inl e" by blast
      show "\<exists>pre f rest s'. files = pre @ f # rest \<and> write_files tw pre s2 = Inr s'
        \<and> pack_file tw s' f = Inl e"
      proof (cases pre)
        case Nil
        with d w p Inr show ?thesis by simp
      next
        case (Cons a pre')
        with d have "a = g" "files = pre' @ f # rest" by simp_all
        moreover from Cons w Inr \<open>a = g\<close> have "write_files tw pre' s2 = Inr s'" by simp
        ultimately show ?thesis using p by blast
      qed
    qed
    finally show ?thesis .
  qed
qed

lemma ReadCDSFiles_fails_iff:
  "ReadCDSFiles tw files = Inl e \<longleftrightarrow>
     (\<exists>pre f rest s. files = pre @ f # rest \<and> write_files tw pre (tw_NewWriter tw) = Inr s
        \<and> pack_file tw s f = Inl e)
   \<or> (\<exists>s. write_files tw files (tw_NewWriter tw) = Inr s \<and> tw_Close tw s = Inl e)"
proof (cases "write_files tw files (tw_NewWriter tw)")
  case (Inl e')
  then have "ReadCDSFiles tw files = Inl e \<longleftrightarrow> write_files tw files (tw_NewWriter tw) = Inl e"
    by (auto simp: ReadCDSFiles_def)
  with Inl show ?thesis
    using write_files_fails_iff [of tw files "tw_NewWriter tw" e] by auto
next
  case (Inr s)
  then have n: "write_files tw files (tw_NewWriter tw) \<noteq> Inl e" by simp
  have "ReadCDSFiles tw files = Inl e \<longleftrightarrow> tw_Close tw s = Inl e"
    using Inr by (auto simp: ReadCDSFiles_def split: sum.splits)
  with Inr n show ?thesis
    using write_files_fails_iff [of tw files "tw_NewWriter tw" e] by auto
qed

lemma ReadCDSFiles_succeeds_iff:
  "ReadCDSFiles tw files = Inr a \<longleftrightarrow>
     (\<exists>s. write_files tw files (tw_NewWriter tw) = Inr s \<and> tw_Close tw s = Inr a)"
  by (auto simp: ReadCDSFiles_def split: sum.splits)

lemma append_last_snoc: "append_last (s @ [(hdr, c)]) b = s @ [(hdr, c @ b)]"
  by (simp add: append_last_def)

lemma pack_file_recording:
  assumes "pack_file (recording_writer hf wr cf) s f = Inr s2"
  shows "\<exists>n s1. 0 < n \<and> wr s1 (snd f) = (n, None) \<and> s2 = s @ [(file_header f, take n (snd f))]"
proof -
  from assms obtain s1 n where h: "tw_WriteHeader (recording_writer hf wr cf) s (file_header f) = Inr s1"
    and w: "tw_Write (recording_writer hf wr cf) s1 (snd f) = (n, None, s2)" and n: "0 < n"
    by (auto simp: pack_file_succeeds_iff)
  from h have s1: "s1 = s @ [(file_header f, [])]"
    by (auto simp: recording_writer_def split: option.splits)
  from w have "wr s1 (snd f) = (n, None)" and "s2 = append_last s1 (take n (snd f))"
    by (auto simp: recording_writer_def split: prod.splits)
  with s1 n show ?thesis by (auto simp: append_last_snoc)
qed

lemma write_files_recording:
  "write_files (recording_writer hf wr cf) files s = Inr s' \<Longrightarrow>
   \<exists>added. s' = s @ added \<and> list_all2 (recorded wr) added files"
proof (induction files arbitrary: s)
  case Nil
  then show ?case by simp
next
  case (Cons f files)
  from Cons.prems obtain s2 where p: "pack_file (recording_writer hf wr cf) s f = Inr s2"
    and w: "write_files (recording_writer hf wr cf) files s2 = Inr s'"
    by (auto split: sum.splits)
  from pack_file_recording [OF p] obtain n s1 where n: "0 < n" "wr s1 (snd f) = (n, None)"
    and s2: "s2 = s @ [(file_header f, take n (snd f))]"
    by blast
  from Cons.IH [OF w] obtain added where a: "s' = s2 @ added" "list_all2 (recorded wr) added files"
    by blast
  have "recorded wr (file_header f, take n (snd f)) f"
    using n by (auto simp: recorded_def)
  with a s2 have "s' = s @ ((file_header f, take n (snd f)) # added)
      \<and> list_all2 (recorded wr) ((file_header f, take n (snd f)) # added) (f # files)"
    by simp
  then show ?case by blast
qed

lemma ReadCDSFiles_recording:
  assumes "ReadCDSFiles (recording_writer hf wr cf) files = Inr a"
  shows "list_all2 (recorded wr) a files"
proof -
  from assms obtain s where w: "write_files (recording_writer hf wr cf) files [] = Inr s"
    and c: "tw_Close (recording_writer hf wr cf) s = Inr a"
    by (auto simp: ReadCDSFiles_succeeds_iff recording_writer_def)
  from c have "a = s" by (auto simp: recording_writer_def split: option.splits)
  with write_files_recording [OF w] show ?thesis by simp
qed

lemma recorded_whole:
  assumes "recorded wr e f" and "\<And>s1 b n. wr s1 b = (n, None) \<Longrightarrow> n = length b"
  shows "e = packed_entry f"
proof -
  from assms(1) obtain n s1 where "fst e = file_header f" "wr s1 (snd f) = (n, None)"
    "snd e = take n (snd f)" by (auto simp: recorded_def)
  with assms(2) [of s1 "snd f" n] show ?thesis
    by (cases e) (simp add: packed_entry_def)
qed

lemma ReadCDSFiles_recording_whole:
  assumes "ReadCDSFiles (recording_writer hf wr cf) files = Inr r"
    and "\<forall>s1 b n. wr s1 b = (n, None) \<longrightarrow> n = length b"
  shows "r = map packed_entry files"
proof -
  have "list_all2 (recorded wr) r files"
    using ReadCDSFiles_recording [OF assms(1)] .
  then have "list_all2 (\<lambda>e f. e = packed_entry f) r files"
    using assms(2) by (auto elim!: list_all2_mono intro: recorded_whole)
  then have "list_all2 (=) r (map packed_entry files)"
    by (simp add: list_all2_map2)
  then show ?thesis by (simp add: list_all2_eq)
qed

lemma empty_content_fails:
  assumes "\<And>s1. fst (tw_Write tw s1 []) = 0"
  shows "\<exists>e. pack_file tw s (fname, []) = Inl e"
proof (cases "tw_WriteHeader tw s (file_header (fname, []))")
  case (Inl e)
  then show ?thesis by (simp add: pack_file_def file_header_def)
next
  case (Inr s1)
  obtain n eo s2 where w: "tw_Write tw s1 [] = (n, eo, s2)" by (cases "tw_Write tw s1 []") auto
  with assms [of s1] have "n = 0" by simp
  with Inr w show ?thesis
    by (cases eo) (simp_all add: pack_file_def file_header_def)
qed

lemma Base_nonempty: "Base p \<noteq> []"
  by (simp add: Base_def Let_def)

lemma Base_no_separator: "Base p = ''/'' \<or> CHR ''/'' \<notin> set (Base p)"
proof -
  have "CHR ''/'' \<notin> set (takeWhile (\<lambda>c. c \<noteq> CHR ''/'') xs)" for xs
    by (induction xs) auto
  then show ?thesis by (auto simp: Base_def Let_def)
qed

lemma buffer_writer_fields:
  "tw_NewWriter buffer_writer = []"
  "tw_WriteHeader buffer_writer s hdr = Inr (s @ [(hdr, [])])"
  "tw_Write buffer_writer (s @ [(hdr, c)]) b = (length b, None, s @ [(hdr, c @ b)])"
  "tw_Close buffer_writer s = Inr s"
  by (simp_all add: buffer_writer_def recording_writer_def append_last_snoc)

text \<open>
  C8, as the code has it, for every writer \<open>tw\<close>. Packing fails exactly when some file
  fails after the files before it were packed, or all files are packed and closing fails,
  and then with that error. A file fails exactly when its header write errors ("Cannot
  write header"), its content write errors ("Cannot write content"), or its content
  write reports zero bytes and no error ("nothing to write"); the last is the case of
  every file with no content on a writer that reports zero bytes for an empty write, so
  the failure is not limited to non-empty content. Packing succeeds exactly when all files
  are packed and closing succeeds. The header given to the writer for a file has the
  file's base name (not empty, and with no separator left but for a path of separators
  alone), mode 0600 and the exact length of the content; on a writer that records what
  it is given, whatever calls it refuses, the archive of a successful packing has one entry
  per file, in the order of iteration, with that header and the bytes the write took,
  which are the whole content when successful writes take every byte.
\<close>

theorem packing_entries_and_failures:
  "(ReadCDSFiles tw files = Inl e \<longleftrightarrow>
       (\<exists>pre f rest s. files = pre @ f # rest \<and> write_files tw pre (tw_NewWriter tw) = Inr s
          \<and> pack_file tw s f = Inl e)
     \<or> (\<exists>s. write_files tw files (tw_NewWriter tw) = Inr s \<and> tw_Close tw s = Inl e))
   \<and> (pack_file tw s f = Inl e \<longleftrightarrow>
       (\<exists>e'. tw_WriteHeader tw s (file_header f) = Inl e' \<and> e = WrapError e' ''Cannot write header'')
     \<or> (\<exists>s1 n e' s2. tw_WriteHeader tw s (file_header f) = Inr s1
           \<and> tw_Write tw s1 (snd f) = (n, Some e', s2) \<and> e = WrapError e' ''Cannot write content'')
     \<or> (\<exists>s1 s2. tw_WriteHeader tw s (file_header f) = Inr s1
           \<and> tw_Write tw s1 (snd f) = (0, None, s2) \<and> e = Errorf ''nothing to write''))
   \<and> (ReadCDSFiles tw files = Inr a \<longleftrightarrow>
       (\<exists>s. write_files tw files (tw_NewWriter tw) = Inr s \<and> tw_Close tw s = Inr a))
   \<and> (ReadCDSFiles (recording_writer hf wr cf) files = Inr r \<longrightarrow> list_all2 (recorded wr) r files)
   \<and> (ReadCDSFiles (recording_writer hf wr cf) files = Inr r
        \<and> (\<forall>s1 b n. wr s1 b = (n, None) \<longrightarrow> n = length b) \<longrightarrow> r = map packed_entry files)
   \<and> file_header (fname, fcontent) =
       \<lparr>hdr_Name = Base fname, hdr_Mode = 6 * 64, hdr_Size = int (length fcontent)\<rparr>
   \<and> Base fname \<noteq> [] \<and> (Base fname = ''/'' \<or> CHR ''/'' \<notin> set (Base fname))
   \<and> ((\<forall>s1. fst (tw_Write tw s1 []) = 0) \<longrightarrow> (\<exists>e. pack_file tw s (fname, []) = Inl e))"
proof -
  note a = ReadCDSFiles_fails_iff [of tw files e]
  note b = pack_file_fails_iff [of tw s f e]
  note c = ReadCDSFiles_succeeds_iff [of tw files a]
  have d: "ReadCDSFiles (recording_writer hf wr cf) files = Inr r \<longrightarrow> list_all2 (recorded wr) r files"
    using ReadCDSFiles_recording by blast
  have d2: "ReadCDSFiles (recording_writer hf wr cf) files = Inr r
        \<and> (\<forall>s1 b n. wr s1 b = (n, None) \<longrightarrow> n = length b) \<longrightarrow> r = map packed_entry files"
    using ReadCDSFiles_recording_whole by blast
  have h: "file_header (fname, fcontent) =
       \<lparr>hdr_Name = Base fname, hdr_Mode = 6 * 64, hdr_Size = int (length fcontent)\<rparr>"
    by (simp add: file_header_def)
  note g = Base_nonempty [of fname] Base_no_separator [of fname]
  have k: "(\<forall>s1. fst (tw_Write tw s1 []) = 0) \<longrightarrow> (\<exists>e. pack_file tw s (fname, []) = Inl e)"
    using empty_content_fails [of tw s fname] by blast
  from a b c d d2 h g k show ?thesis by (intro conjI)
qed

text \<open>
  Two files on a recording writer that refuses nothing, and a file with no content on the
  same writer.
\<close>

theorem packing_entries_and_failures_example:
  "ReadCDSFiles buffer_writer [(''.cds/w.yml'', ''name: w''), (''.cds/a.app.yml'', ''name: a'')] =
     Inr [(\<lparr>hdr_Name = ''w.yml'', hdr_Mode = 384, hdr_Size = 7\<rparr>, ''name: w''),
          (\<lparr>hdr_Name = ''a.app.yml'', hdr_Mode = 384, hdr_Size = 7\<rparr>, ''name: a'')]
   \<and> list_all2 (recorded (\<lambda>s b. (length b, None)))
        [(\<lparr>hdr_Name = ''w.yml'', hdr_Mode = 384, hdr_Size = 7\<rparr>, ''name: w''),
         (\<lparr>hdr_Name = ''a.app.yml'', hdr_Mode = 384, hdr_Size = 7\<rparr>, ''name: a'')]
        [(''.cds/w.yml'', ''name: w''), (''.cds/a.app.yml'', ''name: a'')]
   \<and> (\<forall>s1. fst (tw_Write buffer_writer s1 []) = 0)
   \<and> (\<exists>e. pack_file buffer_writer [] (''.cds/w.yml'', []) = Inl e)
   \<and> ReadCDSFiles buffer_writer [(''.cds/w.yml'', '''')] = Inl (Errorf ''nothing to write'')"
proof -
  let ?files = "[(''.cds/w.yml'', ''name: w''), (''.cds/a.app.yml'', ''name: a'')]"
  let ?r = "[(\<lparr>hdr_Name = ''w.yml'', hdr_Mode = 384, hdr_Size = 7\<rparr>, ''name: w''),
          (\<lparr>hdr_Name = ''a.app.yml'', hdr_Mode = 384, hdr_Size = 7\<rparr>, ''name: a'')]"
  have b: "Base ''.cds/w.yml'' = ''w.yml''" "Base ''.cds/a.app.yml'' = ''a.app.yml''"
    by (simp_all add: Base_def)
  have 1: "ReadCDSFiles buffer_writer ?files = Inr ?r"
    using buffer_writer_fields(3) [of "[]"]
      buffer_writer_fields(3) [of "[(\<lparr>hdr_Name = ''w.yml'', hdr_Mode = 384, hdr_Size = 7\<rparr>, ''name: w'')]"]
    by (simp add: ReadCDSFiles_def pack_file_def buffer_writer_fields(1,2,4) b)
  have 2: "list_all2 (recorded (\<lambda>s b. (length b, None))) ?r ?files"
    using 1 packing_entries_and_failures
      [THEN conjunct2, THEN conjunct2, THEN conjunct2, THEN conjunct1,
       of "\<lambda>s hdr. None" "\<lambda>s b. (length b, None)" "\<lambda>s. None" ?files ?r]
    by (simp only: buffer_writer_def)
  have 3: "\<forall>s1. fst (tw_Write buffer_writer s1 []) = 0"
    by (simp add: buffer_writer_def recording_writer_def)
  have 4: "\<exists>e. pack_file buffer_writer [] (''.cds/w.yml'', []) = Inl e"
    using 3 packing_entries_and_failures [where tw = buffer_writer and s = "[]" and fname = "''.cds/w.yml''"]
    by blast
  have 5: "ReadCDSFiles buffer_writer [(''.cds/w.yml'', '''')] = Inl (Errorf ''nothing to write'')"
    using buffer_writer_fields(3) [of "[]"]
    by (simp add: ReadCDSFiles_def pack_file_def buffer_writer_fields(1,2,4))
  from 1 2 3 4 5 show ?thesis by blast
qed

text \<open>
  The claim as stated fails on a file with no content: no write fails and the content is
  not non-empty, yet packing fails.
\<close>

theorem packing_empty_file_counterexample:
  "tw_WriteHeader buffer_writer []
      \<lparr>hdr_Name = Base ''.cds/w.yml'', hdr_Mode = 384, hdr_Size = int (length '''')\<rparr> =
     Inr [(\<lparr>hdr_Name = ''w.yml'', hdr_Mode = 384, hdr_Size = 0\<rparr>, [])]
   \<and> tw_Write buffer_writer [(\<lparr>hdr_Name = ''w.yml'', hdr_Mode = 384, hdr_Size = 0\<rparr>, [])] '''' =
     (0, None, [(\<lparr>hdr_Name = ''w.yml'', hdr_Mode = 384, hdr_Size = 0\<rparr>, [])])
   \<and> ReadCDSFiles buffer_writer [(''.cds/w.yml'', '''')] = Inl (Errorf ''nothing to write'')"
  by (simp add: ReadCDSFiles_def pack_file_def buffer_writer_def recording_writer_def
      append_last_def Base_def)

subsection \<open>Reconciliation: the code against the specification's reading\<close>

lemma legacy_hooks_none:
  "\<not> list_ex (is_repo_webhook C) hs \<Longrightarrow>
   legacy_hooks C old a hs =
     hs @ [\<lparr>UUID = UUID old, HookModelName = HookModelName old,
            HookModelID = HookModelID old, Config = Some a\<rparr>]"
proof -
  assume "\<not> list_ex (is_repo_webhook C) hs"
  then have "dropWhile (\<lambda>h. \<not> is_repo_webhook C h) hs = []"
    by (simp add: list_ex_iff)
  then show ?thesis by (simp only: legacy_hooks_def list.case)
qed

lemma legacy_hooks_Cons_other:
  assumes "\<not> is_repo_webhook C h" and "list_ex (is_repo_webhook C) hs"
  shows "legacy_hooks C old a (h # hs) = h # legacy_hooks C old a hs"
proof (cases "dropWhile (\<lambda>h. \<not> is_repo_webhook C h) hs")
  case Nil
  with assms(2) show ?thesis by (simp add: list_ex_iff)
next
  case (Cons h' rest)
  with assms(1) show ?thesis by (simp add: legacy_hooks_def)
qed

lemma update_current_hook_eq:
  "update_current_hook C name old S hs =
    (if list_ex (is_repo_webhook C) hs
     then Some (S @ [legacy_config C S old name], legacy_hooks C old (length S) hs)
     else None)"
proof (induction hs)
  case Nil
  show ?case by simp
next
  case (Cons h hs)
  show ?case
  proof (cases "is_repo_webhook C h")
    case True
    then show ?thesis
      by (simp add: is_repo_webhook_def legacy_hooks_def legacy_config_def Clone_def set_config_def)
  next
    case False
    then have n: "HookModelName h \<noteq> model_Name (RepositoryWebHookModel C)"
      by (simp add: is_repo_webhook_def)
    show ?thesis
    proof (cases "list_ex (is_repo_webhook C) hs")
      case True
      with False n Cons.IH show ?thesis
        by (simp add: legacy_hooks_Cons_other)
    next
      case F: False
      with False n Cons.IH show ?thesis by simp
    qed
  qed
qed

lemma adopt_old_hook_eq:
  "adopt_old_hook C old (S, w) =
     (S @ [legacy_config C S old (wf_Name w)],
      with_hooks w (legacy_hooks C old (length S) (root_hooks w)))"
  by (simp add: adopt_old_hook_def update_current_hook_eq legacy_hooks_none root_hooks_def
      with_hooks_def legacy_config_def Clone_def set_config_def Let_def)

lemma create_repo_webhook_eq:
  "create_repo_webhook C proj (S, w) =
    (let S1 = S @ [model_DefaultConfig (RepositoryWebHookModel C)];
         w1 = with_hooks w (default_hooks C S (root_hooks w))
     in case DefaultPayload_func C proj (S1, w1) of
          Inl e \<Rightarrow> Inl (WrapError e ''Unable to get default payload'')
        | Inr payload \<Rightarrow> Inr (S1, with_payload w1 payload))"
  by (cases "list_ex (\<lambda>h. Ref C (S @ [model_DefaultConfig (RepositoryWebHookModel C)]) h =
        Ref C (S @ [model_DefaultConfig (RepositoryWebHookModel C)]) (default_hook C (length S)))
        (Hooks (WorkflowData_Node w))")
    (simp_all add: create_repo_webhook_def Clone_def default_hooks_def default_hook_def
      with_hooks_def with_payload_def root_hooks_def Let_def split: sum.splits)

lemma old_repo_webhook_Some:
  "old_repo_webhook C oldW = Some old \<Longrightarrow>
   is_repo_webhook C old \<and> (\<exists>ow. oldW = Some ow \<and> old \<in> set (root_hooks ow))"
  by (auto simp: old_repo_webhook_def is_repo_webhook_def root_hooks_def find_Some_iff
      split: option.splits)

lemma count_legacy_hooks:
  assumes "is_repo_webhook C old"
  shows "length (filter (is_repo_webhook C) (legacy_hooks C old a hs)) =
     max 1 (length (filter (is_repo_webhook C) hs))"
proof (cases "list_ex (is_repo_webhook C) hs")
  case False
  then have "filter (is_repo_webhook C) hs = []"
    by (simp add: list_ex_iff filter_empty_conv)
  with False assms show ?thesis
    by (simp add: legacy_hooks_none is_repo_webhook_def)
next
  case True
  then obtain h rest where d: "dropWhile (\<lambda>h. \<not> is_repo_webhook C h) hs = h # rest"
    by (cases "dropWhile (\<lambda>h. \<not> is_repo_webhook C h) hs") (auto simp: list_ex_iff)
  then have h: "is_repo_webhook C h"
    by (metis hd_dropWhile list.sel(1) list.distinct(1))
  have t: "filter (is_repo_webhook C) (takeWhile (\<lambda>h. \<not> is_repo_webhook C h) hs) = []"
    by (auto simp: filter_empty_conv dest: set_takeWhileD)
  have "hs = takeWhile (\<lambda>h. \<not> is_repo_webhook C h) hs @ h # rest"
    using d takeWhile_dropWhile_id [of "\<lambda>h. \<not> is_repo_webhook C h" hs] by simp
  then have "filter (is_repo_webhook C) hs = h # filter (is_repo_webhook C) rest"
    using t h by (metis append_Nil filter.simps(2) filter_append)
  moreover have "legacy_hooks C old a hs =
      takeWhile (\<lambda>h. \<not> is_repo_webhook C h) hs @ h\<lparr>UUID := UUID old, Config := Some a\<rparr> # rest"
    by (simp add: legacy_hooks_def d)
  moreover have "is_repo_webhook C (h\<lparr>UUID := UUID old, Config := Some a\<rparr>)"
    using h by (simp add: is_repo_webhook_def)
  ultimately show ?thesis using t by simp
qed

subsection \<open>Repository webhook reconciliation\<close>

lemma reconcile_repo_webhook_legacy:
  assumes "FromRepository w \<noteq> ''''" and "old_repo_webhook C oldW = Some old"
  shows "reconcile_repo_webhook C proj oldW (S, w) =
     Inr (S @ [legacy_config C S old (wf_Name w)],
          with_hooks w (legacy_hooks C old (length S) (root_hooks w)))"
proof -
  from assms(2) obtain ow where "oldW = Some ow"
    by (cases oldW) (simp_all add: old_repo_webhook_def)
  with assms show ?thesis
    by (simp add: reconcile_repo_webhook_def adopt_old_hook_eq)
qed

lemma reconcile_repo_webhook_default:
  assumes "FromRepository w \<noteq> ''''" and "old_repo_webhook C oldW = None"
  shows "reconcile_repo_webhook C proj oldW (S, w) =
    (let S1 = S @ [model_DefaultConfig (RepositoryWebHookModel C)];
         w1 = with_hooks w (default_hooks C S (root_hooks w))
     in case DefaultPayload_func C proj (S1, w1) of
          Inl e \<Rightarrow> Inl (WrapError e ''Unable to get default payload'')
        | Inr payload \<Rightarrow> Inr (S1, with_payload w1 payload))"
  using assms by (simp add: reconcile_repo_webhook_def create_repo_webhook_eq)

lemma count_default_hooks:
  assumes "S1 = S @ [model_DefaultConfig (RepositoryWebHookModel C)]"
    and "new = default_hook C (length S)"
  shows "length (filter (\<lambda>h. Ref C S1 h = Ref C S1 new) (default_hooks C S hs)) =
     max 1 (length (filter (\<lambda>h. Ref C S1 h = Ref C S1 new) hs))"
proof (cases "list_ex (\<lambda>h. Ref C S1 h = Ref C S1 new) hs")
  case True
  then have "filter (\<lambda>h. Ref C S1 h = Ref C S1 new) hs \<noteq> []"
    by (simp add: list_ex_iff filter_empty_conv)
  then have "1 \<le> length (filter (\<lambda>h. Ref C S1 h = Ref C S1 new) hs)"
    by (simp add: Suc_le_eq)
  with True assms show ?thesis by (simp add: default_hooks_def)
next
  case False
  then have "filter (\<lambda>h. Ref C S1 h = Ref C S1 new) hs = []"
    by (simp add: list_ex_iff filter_empty_conv)
  with False assms show ?thesis by (simp add: default_hooks_def)
qed

lemma root_hooks_with_hooks [simp]: "root_hooks (with_hooks w hs) = hs"
  by (simp add: root_hooks_def with_hooks_def)

lemma root_hooks_with_payload [simp]: "root_hooks (with_payload w p) = root_hooks w"
  by (simp add: root_hooks_def with_payload_def)

lemma legacy_hooks_found:
  assumes "hs = pre @ h # rest" and "list_all (\<lambda>x. \<not> is_repo_webhook C x) pre"
    and "is_repo_webhook C h"
  shows "legacy_hooks C old a hs = pre @ h\<lparr>UUID := UUID old, Config := Some a\<rparr> # rest"
proof -
  have p: "\<And>x. x \<in> set pre \<Longrightarrow> \<not> is_repo_webhook C x"
    using assms(2) by (simp add: list_all_iff)
  have "dropWhile (\<lambda>h. \<not> is_repo_webhook C h) hs = h # rest"
    using p assms(1,3) by (simp add: dropWhile_append2)
  moreover have "takeWhile (\<lambda>h. \<not> is_repo_webhook C h) hs = pre"
    using p assms(1,3) by (simp add: takeWhile_append2)
  ultimately show ?thesis by (simp add: legacy_hooks_def)
qed

lemma sample_is_repo_webhook [simp]:
  "is_repo_webhook sample_collaborators (repo_hook u c)"
  by (simp add: is_repo_webhook_def repo_hook_def sample_collaborators_def)

text \<open>
  C2, as the code has it. With a repository origin and a legacy hook \<open>old\<close> (the first root
  hook of the previous workflow with the repository webhook model), reconciliation
  succeeds. The legacy configuration is cloned into a new map at the next free address
  \<open>length S\<close> and the workflow-name key of the clone is set to the new workflow's name; the
  store is only extended, so the legacy hook's own map (at an address of the store) keeps
  its pairs and is not the clone. If the new workflow's root hooks hold a hook of the model, the first such hook
  takes the legacy UUID and the clone, and nothing else changes; if they hold none, a
  hook with the legacy UUID, the model and the clone is appended. The result holds as
  many hooks of the model as the new workflow had, and at least one: exactly one when
  the new workflow had at most one.
\<close>

theorem legacy_hook_adopted:
  assumes "FromRepository w \<noteq> ''''" and "old_repo_webhook C oldW = Some old"
  shows "reconcile_repo_webhook C proj oldW (S, w) =
       Inr (S @ [(cell S (Config old))(HookConfigWorkflow C \<mapsto> workflow_name_value (wf_Name w))],
            with_hooks w (legacy_hooks C old (length S) (root_hooks w)))
    \<and> (root_hooks w = pre @ h # rest \<and> list_all (\<lambda>x. \<not> is_repo_webhook C x) pre
         \<and> is_repo_webhook C h \<longrightarrow>
       legacy_hooks C old (length S) (root_hooks w) =
         pre @ h\<lparr>UUID := UUID old, Config := Some (length S)\<rparr> # rest)
    \<and> (list_all (\<lambda>x. \<not> is_repo_webhook C x) (root_hooks w) \<longrightarrow>
       legacy_hooks C old (length S) (root_hooks w) =
         root_hooks w @ [\<lparr>UUID = UUID old, HookModelName = model_Name (RepositoryWebHookModel C),
                          HookModelID = HookModelID old, Config = Some (length S)\<rparr>])
    \<and> length (filter (is_repo_webhook C) (legacy_hooks C old (length S) (root_hooks w))) =
        max 1 (length (filter (is_repo_webhook C) (root_hooks w)))
    \<and> ((case Config old of None \<Rightarrow> True | Some a \<Rightarrow> a < length S) \<longrightarrow>
       Config old \<noteq> Some (length S)
       \<and> cell (S @ [(cell S (Config old))(HookConfigWorkflow C \<mapsto> workflow_name_value (wf_Name w))])
            (Config old) = cell S (Config old))"
proof -
  have old: "is_repo_webhook C old"
    using old_repo_webhook_Some [OF assms(2)] by blast
  have e: "(case Config old of None \<Rightarrow> True | Some a \<Rightarrow> a < length S) \<longrightarrow>
       Config old \<noteq> Some (length S)
       \<and> cell (S @ [(cell S (Config old))(HookConfigWorkflow C \<mapsto> workflow_name_value (wf_Name w))])
            (Config old) = cell S (Config old)"
    by (cases "Config old") (auto simp: cell_def nth_append)
  have a: "reconcile_repo_webhook C proj oldW (S, w) =
       Inr (S @ [(cell S (Config old))(HookConfigWorkflow C \<mapsto> workflow_name_value (wf_Name w))],
            with_hooks w (legacy_hooks C old (length S) (root_hooks w)))"
    using reconcile_repo_webhook_legacy [OF assms, of proj S] by (simp add: legacy_config_def)
  have b: "root_hooks w = pre @ h # rest \<and> list_all (\<lambda>x. \<not> is_repo_webhook C x) pre
         \<and> is_repo_webhook C h \<longrightarrow>
       legacy_hooks C old (length S) (root_hooks w) =
         pre @ h\<lparr>UUID := UUID old, Config := Some (length S)\<rparr> # rest"
    using legacy_hooks_found [of "root_hooks w" pre h rest C old "length S"] by blast
  have c: "list_all (\<lambda>x. \<not> is_repo_webhook C x) (root_hooks w) \<longrightarrow>
       legacy_hooks C old (length S) (root_hooks w) =
         root_hooks w @ [\<lparr>UUID = UUID old, HookModelName = model_Name (RepositoryWebHookModel C),
                          HookModelID = HookModelID old, Config = Some (length S)\<rparr>]"
  proof
    assume "list_all (\<lambda>x. \<not> is_repo_webhook C x) (root_hooks w)"
    then have "\<not> list_ex (is_repo_webhook C) (root_hooks w)"
      by (simp add: list_all_iff list_ex_iff)
    then show "legacy_hooks C old (length S) (root_hooks w) =
         root_hooks w @ [\<lparr>UUID = UUID old, HookModelName = model_Name (RepositoryWebHookModel C),
                          HookModelID = HookModelID old, Config = Some (length S)\<rparr>]"
      using old by (simp add: legacy_hooks_none is_repo_webhook_def)
  qed
  note d = count_legacy_hooks [OF old, of "length S" "root_hooks w"]
  from a b c d e show ?thesis by blast
qed

text \<open>
  Previous workflow with the repository webhook \<open>U1\<close> and configuration \<open>{a: 1}\<close>, new
  workflow with a hook of the model and no UUID: one hook, with UUID \<open>U1\<close> and the cloned
  configuration plus the workflow's name.
\<close>

theorem legacy_hook_adopted_example:
  "FromRepository (sample_workflow [repo_hook '''' None] 0) \<noteq> ''''
   \<and> old_repo_webhook sample_collaborators (Some (sample_workflow [repo_hook ''U1'' (Some 0)] 0))
       = Some (repo_hook ''U1'' (Some 0))
   \<and> reconcile_repo_webhook sample_collaborators sample_project
        (Some (sample_workflow [repo_hook ''U1'' (Some 0)] 0))
        ([[''a'' \<mapsto> sample_value ''1'']], sample_workflow [repo_hook '''' None] 0) =
      Inr ([[''a'' \<mapsto> sample_value ''1''],
            [''a'' \<mapsto> sample_value ''1'', ''workflow'' \<mapsto> workflow_name_value ''my-workflow'']],
           sample_workflow [repo_hook ''U1'' (Some 1)] 0)
   \<and> list_all (\<lambda>x. \<not> is_repo_webhook sample_collaborators x) (root_hooks (sample_workflow [] 0))
   \<and> legacy_hooks sample_collaborators (repo_hook ''U1'' (Some 0)) 1 (root_hooks (sample_workflow [] 0)) =
      [repo_hook ''U1'' (Some 1)]
   \<and> (case Config (repo_hook ''U1'' (Some 0)) of None \<Rightarrow> True | Some a \<Rightarrow> a < length [[''a'' \<mapsto> sample_value ''1'']])"
proof -
  have n: "list_all (\<lambda>x. \<not> is_repo_webhook sample_collaborators x) (root_hooks (sample_workflow [] 0))"
    by (simp add: root_hooks_def sample_workflow_def)
  have fn: "FromRepository (sample_workflow [] 0) \<noteq> ''''" by (simp add: sample_workflow_def)
  have v: "case Config (repo_hook ''U1'' (Some 0)) of None \<Rightarrow> True
           | Some a \<Rightarrow> a < length [[''a'' \<mapsto> sample_value ''1'']]"
    by (simp add: repo_hook_def)
  let ?w = "sample_workflow [repo_hook '''' None] 0"
  let ?ow = "sample_workflow [repo_hook ''U1'' (Some 0)] 0"
  let ?S = "[[''a'' \<mapsto> sample_value ''1'']]"
  have f: "FromRepository ?w \<noteq> ''''" by (simp add: sample_workflow_def)
  have o: "old_repo_webhook sample_collaborators (Some ?ow) = Some (repo_hook ''U1'' (Some 0))"
    by (simp add: old_repo_webhook_def sample_workflow_def repo_hook_def sample_collaborators_def)
  have hs: "root_hooks ?w = [] @ repo_hook '''' None # []"
    by (simp add: root_hooks_def sample_workflow_def)
  note t = legacy_hook_adopted [OF f o, of sample_project ?S "[]" "repo_hook '''' None" "[]"]
  have l: "legacy_hooks sample_collaborators (repo_hook ''U1'' (Some 0)) (length ?S) (root_hooks ?w) =
      [repo_hook ''U1'' (Some 1)]"
    using t hs by (simp add: repo_hook_def is_repo_webhook_def sample_collaborators_def)
  have "reconcile_repo_webhook sample_collaborators sample_project (Some ?ow) (?S, ?w) =
      Inr (?S @ [(cell ?S (Config (repo_hook ''U1'' (Some 0))))
                 (HookConfigWorkflow sample_collaborators \<mapsto> workflow_name_value (wf_Name ?w))],
           with_hooks ?w [repo_hook ''U1'' (Some 1)])"
    using t l by simp
  moreover have "cell ?S (Config (repo_hook ''U1'' (Some 0))) = [''a'' \<mapsto> sample_value ''1'']"
    by (simp add: cell_def repo_hook_def)
  moreover have "HookConfigWorkflow sample_collaborators = ''workflow''"
    by (simp add: sample_collaborators_def)
  moreover have "wf_Name ?w = ''my-workflow''" by (simp add: sample_workflow_def)
  moreover have "with_hooks ?w [repo_hook ''U1'' (Some 1)] = sample_workflow [repo_hook ''U1'' (Some 1)] 0"
    by (simp add: with_hooks_def sample_workflow_def)
  moreover have "legacy_hooks sample_collaborators (repo_hook ''U1'' (Some 0)) 1
        (root_hooks (sample_workflow [] 0)) = [repo_hook ''U1'' (Some 1)]"
    using legacy_hook_adopted [OF fn o, of sample_project ?S] n
    by (simp add: root_hooks_def sample_workflow_def repo_hook_def sample_collaborators_def)
  ultimately show ?thesis using f o n v by simp
qed

text \<open>
  The claim as stated ("in both cases the result contains exactly one such hook") fails
  when the new workflow's root node has two hooks of the model: the loop stops at the
  first, and the result has both.
\<close>

theorem two_hooks_of_the_model_counterexample:
  "FromRepository (sample_workflow [repo_hook '''' None, repo_hook ''U2'' None] 0) \<noteq> ''''
   \<and> old_repo_webhook sample_collaborators (Some (sample_workflow [repo_hook ''U1'' (Some 0)] 0))
       = Some (repo_hook ''U1'' (Some 0))
   \<and> reconcile_repo_webhook sample_collaborators
        \<lparr>proj_ID = 1, proj_Key = ''KEY'', ProjectGroups = []\<rparr>
        (Some (sample_workflow [repo_hook ''U1'' (Some 0)] 0))
        ([[''a'' \<mapsto> sample_value ''1'']],
         sample_workflow [repo_hook '''' None, repo_hook ''U2'' None] 0) =
      Inr ([[''a'' \<mapsto> sample_value ''1''],
            [''a'' \<mapsto> sample_value ''1'', ''workflow'' \<mapsto> workflow_name_value ''my-workflow'']],
           sample_workflow [repo_hook ''U1'' (Some 1), repo_hook ''U2'' None] 0)
   \<and> length (filter (is_repo_webhook sample_collaborators)
        (root_hooks (sample_workflow [repo_hook ''U1'' (Some 1), repo_hook ''U2'' None] 0))) = 2"
  by (simp add: reconcile_repo_webhook_def old_repo_webhook_def adopt_old_hook_def
      sample_workflow_def repo_hook_def sample_collaborators_def Clone_def cell_def set_config_def
      root_hooks_def is_repo_webhook_def)

lemma default_hook_is_repo_webhook: "is_repo_webhook C (default_hook C a)"
  by (simp add: is_repo_webhook_def default_hook_def)

lemma sample_model:
  "model_DefaultConfig (RepositoryWebHookModel sample_collaborators) = method_config ''POST''"
  "model_Name (RepositoryWebHookModel sample_collaborators) = ''RepositoryWebHook''"
  "model_ID (RepositoryWebHookModel sample_collaborators) = 1"
  by (simp_all add: sample_collaborators_def method_config_def)

lemma sample_default_hook: "default_hook sample_collaborators a = repo_hook '''' (Some a)"
  by (simp add: default_hook_def repo_hook_def sample_model)

lemma sample_Ref:
  "Ref sample_collaborators S (repo_hook u (Some a)) =
     ''model:RepositoryWebHook;method:'' @
       (case cell S (Some a) ''method'' of None \<Rightarrow> '''' | Some v \<Rightarrow> Value v)"
  by (simp add: sample_collaborators_def repo_hook_def)

lemma sample_payload:
  "DefaultPayload_func sample_collaborators proj st = Inr ''git.branch: master''"
  by (simp add: sample_collaborators_def)

text \<open>
  C3, as the code has it. With a repository origin and no legacy hook (no previous
  workflow, or none of its root hooks has the model), a repository webhook with a clone of
  the default configuration is appended exactly when no root hook has a reference equal
  to its reference: reconciliation adds no second hook of that reference. The test is on
  the reference, not on the model: the root node ends with one more hook of the model
  unless a hook of equal reference was there, so a hook of the model with another
  reference does not prevent the append. The default payload is then computed from the
  workflow with the final hooks and stored in the root node's context (an error of that
  computation is returned, wrapped).
\<close>

theorem default_hook_appended_unless_ref_present:
  assumes "FromRepository w \<noteq> ''''" and "old_repo_webhook C oldW = None"
    and "S1 = S @ [model_DefaultConfig (RepositoryWebHookModel C)]"
    and "new = default_hook C (length S)"
    and "hs = (if list_ex (\<lambda>h. Ref C S1 h = Ref C S1 new) (root_hooks w)
               then root_hooks w else root_hooks w @ [new])"
  shows "reconcile_repo_webhook C proj oldW (S, w) =
      (case DefaultPayload_func C proj (S1, with_hooks w hs) of
         Inl e \<Rightarrow> Inl (WrapError e ''Unable to get default payload'')
       | Inr payload \<Rightarrow> Inr (S1, with_payload (with_hooks w hs) payload))
    \<and> length (filter (\<lambda>h. Ref C S1 h = Ref C S1 new) hs) =
        max 1 (length (filter (\<lambda>h. Ref C S1 h = Ref C S1 new) (root_hooks w)))
    \<and> is_repo_webhook C new
    \<and> length (filter (is_repo_webhook C) hs) =
        length (filter (is_repo_webhook C) (root_hooks w)) +
        (if list_ex (\<lambda>h. Ref C S1 h = Ref C S1 new) (root_hooks w) then 0 else 1)"
proof -
  have hs: "hs = default_hooks C S (root_hooks w)"
    using assms(3-5) by (simp add: default_hooks_def)
  have run: "reconcile_repo_webhook C proj oldW (S, w) =
      (case DefaultPayload_func C proj (S1, with_hooks w hs) of
         Inl e \<Rightarrow> Inl (WrapError e ''Unable to get default payload'')
       | Inr payload \<Rightarrow> Inr (S1, with_payload (with_hooks w hs) payload))"
    using reconcile_repo_webhook_default [OF assms(1,2), of proj S]
    by (simp only: hs assms(3) Let_def)
  have cnt: "length (filter (\<lambda>h. Ref C S1 h = Ref C S1 new) hs) =
        max 1 (length (filter (\<lambda>h. Ref C S1 h = Ref C S1 new) (root_hooks w)))"
    using count_default_hooks [OF assms(3,4), of "root_hooks w"] by (simp only: hs)
  have new: "is_repo_webhook C new"
    using assms(4) by (simp add: default_hook_is_repo_webhook)
  have mdl: "length (filter (is_repo_webhook C) hs) =
        length (filter (is_repo_webhook C) (root_hooks w)) +
        (if list_ex (\<lambda>h. Ref C S1 h = Ref C S1 new) (root_hooks w) then 0 else 1)"
    using new by (simp add: assms(5))
  from run cnt new mdl show ?thesis by (intro conjI)
qed

text \<open>
  First import of a workflow with no hook: the default webhook is appended. First import of
  a workflow whose hook has the default webhook's reference: nothing is appended. The
  payload is computed in both.
\<close>

theorem default_hook_appended_unless_ref_present_example:
  "FromRepository (sample_workflow [] 0) \<noteq> ''''
   \<and> old_repo_webhook sample_collaborators None = None
   \<and> reconcile_repo_webhook sample_collaborators sample_project None ([], sample_workflow [] 0) =
      Inr ([method_config ''POST''],
           with_payload (sample_workflow [repo_hook '''' (Some 0)] 0) ''git.branch: master'')
   \<and> FromRepository (sample_workflow [repo_hook ''U7'' (Some 0)] 0) \<noteq> ''''
   \<and> reconcile_repo_webhook sample_collaborators sample_project None
        ([method_config ''POST''], sample_workflow [repo_hook ''U7'' (Some 0)] 0) =
      Inr ([method_config ''POST'', method_config ''POST''],
           with_payload (sample_workflow [repo_hook ''U7'' (Some 0)] 0) ''git.branch: master'')"
proof -
  let ?C = sample_collaborators
  have o: "old_repo_webhook ?C None = None" by (simp add: old_repo_webhook_def)
  have f1: "FromRepository (sample_workflow [] 0) \<noteq> ''''" by (simp add: sample_workflow_def)
  have f2: "FromRepository (sample_workflow [repo_hook ''U7'' (Some 0)] 0) \<noteq> ''''"
    by (simp add: sample_workflow_def)
  have wh: "with_hooks (sample_workflow hs0 0) hs1 = sample_workflow hs1 0" for hs0 hs1
    by (simp add: with_hooks_def sample_workflow_def)
  have rh: "root_hooks (sample_workflow hs0 0) = hs0" for hs0
    by (simp add: root_hooks_def sample_workflow_def)
  have 1: "reconcile_repo_webhook ?C sample_project None ([], sample_workflow [] 0) =
      Inr ([method_config ''POST''],
           with_payload (sample_workflow [repo_hook '''' (Some 0)] 0) ''git.branch: master'')"
    using default_hook_appended_unless_ref_present [OF f1 o refl refl refl,
        where S = "[]" and proj = sample_project, THEN conjunct1]
    by (simp add: rh wh sample_model sample_default_hook sample_payload)
  have eq: "Ref ?C ([method_config ''POST''] @ [method_config ''POST'']) (repo_hook ''U7'' (Some 0)) =
      Ref ?C ([method_config ''POST''] @ [method_config ''POST'']) (repo_hook '''' (Some 1))"
    by (simp add: sample_Ref cell_def method_config_def)
  have 2: "reconcile_repo_webhook ?C sample_project None
        ([method_config ''POST''], sample_workflow [repo_hook ''U7'' (Some 0)] 0) =
      Inr ([method_config ''POST'', method_config ''POST''],
           with_payload (sample_workflow [repo_hook ''U7'' (Some 0)] 0) ''git.branch: master'')"
    using default_hook_appended_unless_ref_present [OF f2 o refl refl refl,
        where S = "[method_config ''POST'']" and proj = sample_project, THEN conjunct1] eq
    by (simp add: rh wh sample_model sample_default_hook sample_payload)
  from f1 o 1 f2 2 show ?thesis by (intro conjI)
qed

text \<open>
  The claim as stated ("so the canonical repository webhook is never duplicated") fails
  when the new workflow holds a repository webhook whose configuration, and so whose
  reference, differs from the default: the default webhook is appended, and the root
  node has two hooks of the model.
\<close>

theorem default_hook_duplicates_model_counterexample:
  "FromRepository (sample_workflow [repo_hook ''U7'' (Some 0)] 0) \<noteq> ''''
   \<and> old_repo_webhook sample_collaborators None = None
   \<and> length (filter (is_repo_webhook sample_collaborators)
        (root_hooks (sample_workflow [repo_hook ''U7'' (Some 0)] 0))) = 1
   \<and> reconcile_repo_webhook sample_collaborators sample_project None
        ([method_config ''GET''], sample_workflow [repo_hook ''U7'' (Some 0)] 0) =
      Inr ([method_config ''GET'', method_config ''POST''],
           with_payload (sample_workflow [repo_hook ''U7'' (Some 0), repo_hook '''' (Some 1)] 0)
             ''git.branch: master'')
   \<and> length (filter (is_repo_webhook sample_collaborators)
        (root_hooks (with_payload
           (sample_workflow [repo_hook ''U7'' (Some 0), repo_hook '''' (Some 1)] 0)
           ''git.branch: master''))) = 2"
  by (simp add: reconcile_repo_webhook_def old_repo_webhook_def create_repo_webhook_def
      sample_workflow_def repo_hook_def sample_collaborators_def Clone_def cell_def
      method_config_def root_hooks_def is_repo_webhook_def with_payload_def Let_def)

subsection \<open>Parse and the argument it is given\<close>

lemma find_append_cases:
  "find P (xs @ ys) = (case find P xs of None \<Rightarrow> find P ys | Some x \<Rightarrow> Some x)"
  by (induction xs) auto

lemma inherit_permissions_lookup:
  "inherit_permissions ps perms g =
    (case find (\<lambda>p. Group_Name p = g) (rev ps) of
       Some p \<Rightarrow> Some (Permission p)
     | None \<Rightarrow> perms g)"
proof (induction ps arbitrary: perms)
  case Nil
  show ?case by simp
next
  case (Cons p ps)
  show ?case
    by (cases "find (\<lambda>p. Group_Name p = g) (rev ps)")
       (simp_all add: Cons.IH find_append_cases)
qed

lemma Parse_leaves:
  "snd (Parse C proj ew S) =
    (if NamePatternRegex C (ew_Name ew) \<and> ew_Permissions ew = Map.empty
     then ew\<lparr>ew_Permissions := inherit_permissions (ProjectGroups proj) Map.empty\<rparr>
     else ew)"
  by (simp add: Parse_def Let_def split: sum.splits prod.splits)

lemma ParseAndImport_leaves:
  "left_ew (ParseAndImport C proj oldW ew opts S) = snd (Parse C proj ew S)"
  by (simp add: ParseAndImport_def failed_def split: sum.splits prod.splits option.splits)

text \<open>
  C10, as the code has it. What Parse leaves in its argument: when the name matches the
  pattern and the argument declares no permission, the permissions inherited from the
  project's groups (each group's permission under its name, the last group of a name
  winning); otherwise the argument as it was. ParseAndImport leaves the same in its
  caller's argument.
\<close>

theorem parse_writes_inherited_permissions:
  "snd (Parse C proj ew S) =
    (if NamePatternRegex C (ew_Name ew) \<and> ew_Permissions ew = Map.empty
     then ew\<lparr>ew_Permissions := inherit_permissions (ProjectGroups proj) Map.empty\<rparr>
     else ew)
   \<and> left_ew (ParseAndImport C proj oldW ew opts S) = snd (Parse C proj ew S)
   \<and> inherit_permissions (ProjectGroups proj) Map.empty g =
       (case find (\<lambda>p. Group_Name p = g) (rev (ProjectGroups proj)) of
          Some p \<Rightarrow> Some (Permission p)
        | None \<Rightarrow> None)"
  using Parse_leaves [of C proj ew S] ParseAndImport_leaves [of C proj oldW ew opts S]
    inherit_permissions_lookup [of "ProjectGroups proj" Map.empty g]
  by simp

text \<open>
  The claim as stated fails on a name that does not match the pattern: Parse returns
  before the permissions are written, although the argument declares none.
\<close>

theorem parse_invalid_name_counterexample:
  "ew_Permissions \<lparr>ew_Name = ''bad name'', ew_Permissions = Map.empty,
       ew_Body = \<lparr>Hooks = [], Context = \<lparr>ApplicationID = 0, DefaultPayload = ''''\<rparr>\<rparr>\<rparr> = Map.empty
   \<and> ProjectGroups \<lparr>proj_ID = 1, proj_Key = ''KEY'',
       ProjectGroups = [\<lparr>Group_Name = ''devs'', Permission = 7\<rparr>]\<rparr> =
      [\<lparr>Group_Name = ''devs'', Permission = 7\<rparr>]
   \<and> ew_Permissions (snd (Parse sample_collaborators
        \<lparr>proj_ID = 1, proj_Key = ''KEY'', ProjectGroups = [\<lparr>Group_Name = ''devs'', Permission = 7\<rparr>]\<rparr>
        \<lparr>ew_Name = ''bad name'', ew_Permissions = Map.empty,
         ew_Body = \<lparr>Hooks = [], Context = \<lparr>ApplicationID = 0, DefaultPayload = ''''\<rparr>\<rparr>\<rparr>
        [])) = Map.empty"
  by (simp add: Parse_def sample_collaborators_def name_char_def)

text \<open>A valid name and no declared permission: the project's group is inherited.\<close>

theorem parse_writes_inherited_permissions_example:
  "ew_Permissions (snd (Parse sample_collaborators
        \<lparr>proj_ID = 1, proj_Key = ''KEY'', ProjectGroups = [\<lparr>Group_Name = ''devs'', Permission = 7\<rparr>]\<rparr>
        \<lparr>ew_Name = ''my-workflow'', ew_Permissions = Map.empty,
         ew_Body = \<lparr>Hooks = [], Context = \<lparr>ApplicationID = 0, DefaultPayload = ''''\<rparr>\<rparr>\<rparr>
        [])) ''devs'' = Some 7"
proof -
  have n: "NamePatternRegex sample_collaborators ''my-workflow''"
    by (simp add: sample_collaborators_def name_char_def)
  show ?thesis
    using parse_writes_inherited_permissions [THEN conjunct1, of sample_collaborators
        "\<lparr>proj_ID = 1, proj_Key = ''KEY'', ProjectGroups = [\<lparr>Group_Name = ''devs'', Permission = 7\<rparr>]\<rparr>"
        "\<lparr>ew_Name = ''my-workflow'', ew_Permissions = Map.empty,
         ew_Body = \<lparr>Hooks = [], Context = \<lparr>ApplicationID = 0, DefaultPayload = ''''\<rparr>\<rparr>\<rparr>" "[]"]
      n
    by simp
qed

subsection \<open>The VCS override\<close>

lemma set_origin_fields [simp]:
  "Applications (set_origin opts w) = Applications w"
  "WorkflowData_Node (set_origin opts w) = WorkflowData_Node w"
  "wf_Name (set_origin opts w) = wf_Name w"
  "FromRepository (set_origin opts w) = opts_FromRepository opts"
  by (simp_all add: set_origin_def Let_def)

lemma override_application_fields [simp]:
  "WorkflowData_Node (override_application opts w) = WorkflowData_Node w"
  "wf_Name (override_application opts w) = wf_Name w"
  "FromRepository (override_application opts w) = FromRepository w"
  by (simp_all add: override_application_def Let_def)

lemma override_after_origin:
  "Applications (override_application opts (set_origin opts w)) =
   Applications (override_application opts w)"
  by (simp add: override_application_def GetApplication_def Let_def)

lemma with_hooks_fields [simp]:
  "Applications (with_hooks w hs) = Applications w"
  "wf_Name (with_hooks w hs) = wf_Name w"
  by (simp_all add: with_hooks_def)

lemma with_payload_fields [simp]:
  "Applications (with_payload w p) = Applications w"
  "wf_Name (with_payload w p) = wf_Name w"
  by (simp_all add: with_payload_def)

lemma reconcile_repo_webhook_frame:
  assumes "reconcile_repo_webhook C proj oldW (S, w) = Inr (S', w')"
  shows "Applications w' = Applications w \<and> wf_Name w' = wf_Name w"
proof (cases "FromRepository w = ''''")
  case True
  with assms show ?thesis by (simp add: reconcile_repo_webhook_def)
next
  case False
  show ?thesis
  proof (cases "old_repo_webhook C oldW")
    case None
    with assms False show ?thesis
      by (auto simp: reconcile_repo_webhook_def create_repo_webhook_eq Let_def split: sum.splits)
  next
    case (Some old)
    then obtain ow where "oldW = Some ow"
      by (cases oldW) (simp_all add: old_repo_webhook_def)
    with assms False Some show ?thesis
      by (auto simp: reconcile_repo_webhook_def adopt_old_hook_eq)
  qed
qed

lemma reconcile_repo_webhook_fails:
  assumes "reconcile_repo_webhook C proj oldW (S, w) = Inl e"
  shows "\<exists>e'. e = WrapError e' ''Unable to get default payload''"
proof (cases "FromRepository w = ''''")
  case True
  with assms show ?thesis by (simp add: reconcile_repo_webhook_def)
next
  case False
  show ?thesis
  proof (cases "old_repo_webhook C oldW")
    case None
    with assms False show ?thesis
      by (auto simp: reconcile_repo_webhook_def create_repo_webhook_eq Let_def split: sum.splits)
  next
    case (Some old)
    then obtain ow where "oldW = Some ow"
      by (cases oldW) (simp_all add: old_repo_webhook_def)
    with assms False Some show ?thesis
      by (auto simp: reconcile_repo_webhook_def adopt_old_hook_eq)
  qed
qed

lemma sample_reconcile_no_repo:
  "reconcile sample_collaborators sample_project None (sample_options '''' vcs wname)
     ([], (sample_workflow [] appID)\<lparr>FromRepository := ''''\<rparr>) =
   (if wname \<noteq> '''' \<and> ''my-workflow'' \<noteq> wname
    then Inl (WrapError (Sdk ErrWorkflowNameImport) ''Wrong workflow name'')
    else Inr ([], override_application (sample_options '''' vcs wname)
                ((sample_workflow [] appID)\<lparr>FromRepository := ''''\<rparr>)))"
  by (simp add: reconcile_def reconcile_repo_webhook_def set_origin_def sample_options_def
      sample_workflow_def override_application_def Let_def)

text \<open>
  C7, as the code has it. With a VCS server in the options and no application on the root
  node (id zero), the override is skipped and the workflow is unchanged; with a non-zero
  id, the application of that id (the zero Application when the map has none) takes the
  options' VCS server, repository name and strategy. Reconciliation's application map is
  that of the override step, and reconciliation fails only with the name-mismatch error or
  with an error of the default payload: never for a missing application.
\<close>

theorem vcs_override_skipped_without_application:
  "(opts_VCSServer opts \<noteq> '''' \<and> ApplicationID (Context (WorkflowData_Node w)) = 0 \<longrightarrow>
      override_application opts w = w)
   \<and> (opts_VCSServer opts \<noteq> '''' \<and> ApplicationID (Context (WorkflowData_Node w)) = appID
       \<and> appID \<noteq> 0 \<longrightarrow>
      override_application opts w =
        w\<lparr>Applications := (Applications w)(appID \<mapsto>
            (GetApplication w appID)\<lparr>app_VCSServer := opts_VCSServer opts,
               app_RepositoryFullname := opts_RepositoryName opts,
               app_RepositoryStrategy := opts_RepositoryStrategy opts\<rparr>)\<rparr>)
   \<and> (reconcile C proj oldW opts (S, w) = Inr (S', w') \<longrightarrow>
      Applications w' = Applications (override_application opts w))
   \<and> (reconcile C proj oldW opts (S, w) = Inl e \<longrightarrow>
      e = WrapError (Sdk ErrWorkflowNameImport) ''Wrong workflow name''
      \<or> (\<exists>e'. e = WrapError e' ''Unable to get default payload''))"
proof -
  have a: "opts_VCSServer opts \<noteq> '''' \<and> ApplicationID (Context (WorkflowData_Node w)) = 0 \<longrightarrow>
      override_application opts w = w"
    by (simp add: override_application_def)
  have b: "opts_VCSServer opts \<noteq> '''' \<and> ApplicationID (Context (WorkflowData_Node w)) = appID
       \<and> appID \<noteq> 0 \<longrightarrow>
      override_application opts w =
        w\<lparr>Applications := (Applications w)(appID \<mapsto>
            (GetApplication w appID)\<lparr>app_VCSServer := opts_VCSServer opts,
               app_RepositoryFullname := opts_RepositoryName opts,
               app_RepositoryStrategy := opts_RepositoryStrategy opts\<rparr>)\<rparr>"
    by (auto simp: override_application_def Let_def)
  have c: "reconcile C proj oldW opts (S, w) = Inr (S', w') \<longrightarrow>
      Applications w' = Applications (override_application opts w)"
  proof
    assume r: "reconcile C proj oldW opts (S, w) = Inr (S', w')"
    then have "reconcile_repo_webhook C proj oldW
        (S, override_application opts (set_origin opts w)) = Inr (S', w')"
      by (auto simp: reconcile_def Let_def split: sum.splits if_splits)
    then have "Applications w' = Applications (override_application opts (set_origin opts w))"
      using reconcile_repo_webhook_frame by blast
    then show "Applications w' = Applications (override_application opts w)"
      by (simp add: override_after_origin)
  qed
  have d: "reconcile C proj oldW opts (S, w) = Inl e \<longrightarrow>
      e = WrapError (Sdk ErrWorkflowNameImport) ''Wrong workflow name''
      \<or> (\<exists>e'. e = WrapError e' ''Unable to get default payload'')"
    using reconcile_repo_webhook_fails [of C proj oldW S "override_application opts (set_origin opts w)" e]
    by (auto simp: reconcile_def Let_def split: sum.splits if_splits)
  from a b c d show ?thesis by blast
qed

text \<open>The override on a root node without and with an application, and a name mismatch.\<close>

theorem vcs_override_skipped_without_application_example:
  "opts_VCSServer (sample_options '''' ''github'' '''') \<noteq> ''''
   \<and> ApplicationID (Context (WorkflowData_Node (sample_workflow [] 0))) = 0
   \<and> override_application (sample_options '''' ''github'' '''') (sample_workflow [] 0) =
       sample_workflow [] 0
   \<and> ApplicationID (Context (WorkflowData_Node (sample_workflow [] 5))) = 5
   \<and> Applications (override_application (sample_options '''' ''github'' '''') (sample_workflow [] 5)) 5 =
       Some \<lparr>app_Name = '''', app_VCSServer = ''github'', app_RepositoryFullname = ''org/repo'',
             app_RepositoryStrategy = opts_RepositoryStrategy (sample_options '''' ''github'' '''')\<rparr>
   \<and> reconcile sample_collaborators sample_project None (sample_options '''' ''github'' ''other'')
        ([], (sample_workflow [] 0)\<lparr>FromRepository := ''''\<rparr>) =
       Inl (WrapError (Sdk ErrWorkflowNameImport) ''Wrong workflow name'')"
proof -
  let ?o = "sample_options '''' ''github'' ''''"
  have v: "opts_VCSServer ?o \<noteq> ''''" by (simp add: sample_options_def)
  have z: "ApplicationID (Context (WorkflowData_Node (sample_workflow [] 0))) = 0"
    by (simp add: sample_workflow_def)
  have f: "ApplicationID (Context (WorkflowData_Node (sample_workflow [] 5))) = 5"
    by (simp add: sample_workflow_def)
  note t = vcs_override_skipped_without_application
  have a: "override_application ?o (sample_workflow [] 0) = sample_workflow [] 0"
    using t [THEN conjunct1, of ?o "sample_workflow [] 0"] v z by blast
  have "override_application ?o (sample_workflow [] 5) =
      (sample_workflow [] 5)\<lparr>Applications := (Applications (sample_workflow [] 5))(5 \<mapsto>
         (GetApplication (sample_workflow [] 5) 5)\<lparr>app_VCSServer := opts_VCSServer ?o,
            app_RepositoryFullname := opts_RepositoryName ?o,
            app_RepositoryStrategy := opts_RepositoryStrategy ?o\<rparr>)\<rparr>"
    using t [THEN conjunct2, THEN conjunct1, of ?o "sample_workflow [] 5" 5] v f by simp
  then have b: "Applications (override_application ?o (sample_workflow [] 5)) 5 =
       Some \<lparr>app_Name = '''', app_VCSServer = ''github'', app_RepositoryFullname = ''org/repo'',
             app_RepositoryStrategy = opts_RepositoryStrategy ?o\<rparr>"
    by (simp add: GetApplication_def sample_workflow_def zero_Application_def sample_options_def)
  have c: "reconcile sample_collaborators sample_project None (sample_options '''' ''github'' ''other'')
        ([], (sample_workflow [] 0)\<lparr>FromRepository := ''''\<rparr>) =
       Inl (WrapError (Sdk ErrWorkflowNameImport) ''Wrong workflow name'')"
    by (simp add: sample_reconcile_no_repo)
  from v z a f b c show ?thesis by blast
qed

text \<open>
  The claim as stated fails: with a VCS server in the options and application id zero,
  ParseAndImport returns the workflow and no error.
\<close>

theorem vcs_override_without_application_counterexample:
  "opts_VCSServer (sample_options '''' ''github'' '''') \<noteq> ''''
   \<and> ApplicationID (Context (ew_Body
        \<lparr>ew_Name = ''my-workflow'', ew_Permissions = Map.empty,
         ew_Body = \<lparr>Hooks = [], Context = \<lparr>ApplicationID = 0, DefaultPayload = ''''\<rparr>\<rparr>\<rparr>)) = 0
   \<and> ret_err (ParseAndImport sample_collaborators sample_project None
        \<lparr>ew_Name = ''my-workflow'', ew_Permissions = Map.empty,
         ew_Body = \<lparr>Hooks = [], Context = \<lparr>ApplicationID = 0, DefaultPayload = ''''\<rparr>\<rparr>\<rparr>
        (sample_options '''' ''github'' '''') []) = None
   \<and> ret_w (ParseAndImport sample_collaborators sample_project None
        \<lparr>ew_Name = ''my-workflow'', ew_Permissions = Map.empty,
         ew_Body = \<lparr>Hooks = [], Context = \<lparr>ApplicationID = 0, DefaultPayload = ''''\<rparr>\<rparr>\<rparr>
        (sample_options '''' ''github'' '''') []) =
      Some ([], \<lparr>wf_Name = ''my-workflow'', ProjectID = 1, ProjectKey = ''KEY'',
                 FromRepository = '''', DerivationBranch = '''',
                 WorkflowData_Node = \<lparr>Hooks = [], Context = \<lparr>ApplicationID = 0, DefaultPayload = ''''\<rparr>\<rparr>,
                 Applications = Map.empty\<rparr>)"
  by (simp add: ParseAndImport_def Parse_def sample_collaborators_def name_char_def
      sample_project_def sample_options_def reconcile_def reconcile_repo_webhook_def
      set_origin_def override_application_def Let_def)

end
